(* ===== verification/Prelude.thy ===== *)
theory Prelude
  imports Main
begin

text \<open>
  Shared vocabulary of the development. The solver in
  \<^verbatim>\<open>src/controllers/sudoku-solver.js\<close> is JavaScript: it indexes strings with
  \<^verbatim>\<open>s[i]\<close> (a one-character string, or \<^verbatim>\<open>undefined\<close> out of range), compares with
  \<^verbatim>\<open>===\<close>, negates with \<^verbatim>\<open>!\<close>, builds strings with \<^verbatim>\<open>+=\<close>, and tests membership with
  \<^verbatim>\<open>String.prototype.includes\<close>. This theory models those primitives on a small
  datatype of JavaScript values, so that the component theories can be read line by
  line against the source, and proves the facts about them that the components share.
  JavaScript strings are sequences of UTF-16 code units; here a string is a
  \<^typ>\<open>char list\<close>, which agrees with the source on every ASCII string, the only
  strings the solver accepts after validation.
\<close>

named_theorems js_simps "evaluation rules of the modelled JavaScript primitives"
named_theorems grid_simps "facts about grid indices used by the component proofs"

type_synonym puzzle = string

datatype jsval = JStr string | JNum nat | JBool bool | JUndef

text \<open>\<^verbatim>\<open>Number.prototype.toString\<close> on a non-negative integer: its decimal digits.\<close>

fun nat_str :: "nat \<Rightarrow> string" where
  "nat_str n = (if n < 10 then [''0123456789'' ! n]
                else nat_str (n div 10) @ [''0123456789'' ! (n mod 10)])"

text \<open>\<^verbatim>\<open>String(v)\<close>, used by \<^verbatim>\<open>+=\<close> and by \<^verbatim>\<open>includes\<close> on its argument.\<close>

fun js_to_string :: "jsval \<Rightarrow> string" where
  "js_to_string (JStr s) = s"
| "js_to_string (JNum n) = nat_str n"
| "js_to_string (JBool b) = (if b then ''true'' else ''false'')"
| "js_to_string JUndef = ''undefined''"

fun js_truthy :: "jsval \<Rightarrow> bool" where
  "js_truthy (JStr s) = (s \<noteq> [])"
| "js_truthy (JNum n) = (n \<noteq> 0)"
| "js_truthy (JBool b) = b"
| "js_truthy JUndef = False"

text \<open>\<^verbatim>\<open>!v\<close> is always a boolean.\<close>

definition js_not :: "jsval \<Rightarrow> jsval" where
  "js_not v = JBool (\<not> js_truthy v)"

text \<open>Strict equality \<^verbatim>\<open>===\<close>: values of different types are never equal.\<close>

fun js_strict_eq :: "jsval \<Rightarrow> jsval \<Rightarrow> bool" where
  "js_strict_eq (JStr a) (JStr b) = (a = b)"
| "js_strict_eq (JNum a) (JNum b) = (a = b)"
| "js_strict_eq (JBool a) (JBool b) = (a = b)"
| "js_strict_eq JUndef JUndef = True"
| "js_strict_eq _ _ = False"

text \<open>\<^verbatim>\<open>s[i]\<close> on a string with a non-negative index.\<close>

definition js_char_at :: "string \<Rightarrow> nat \<Rightarrow> jsval" where
  "js_char_at s i = (if i < length s then JStr [s ! i] else JUndef)"

text \<open>\<^verbatim>\<open>s.slice(b, e)\<close> and \<^verbatim>\<open>s.substr(b, n)\<close> with non-negative arguments.\<close>

definition js_slice :: "string \<Rightarrow> nat \<Rightarrow> nat \<Rightarrow> string" where
  "js_slice s b e = take (e - b) (drop b s)"

definition js_substr :: "string \<Rightarrow> nat \<Rightarrow> nat \<Rightarrow> string" where
  "js_substr s b n = take n (drop b s)"

text \<open>\<^verbatim>\<open>acc += v\<close> on a string accumulator.\<close>

definition js_concat :: "string \<Rightarrow> jsval \<Rightarrow> string" where
  "js_concat acc v = acc @ js_to_string v"

text \<open>\<^verbatim>\<open>s.includes(v)\<close>: \<^verbatim>\<open>String(v)\<close> occurs in \<open>s\<close> as a contiguous block.\<close>

fun str_starts :: "string \<Rightarrow> string \<Rightarrow> bool" where
  "str_starts s [] = True"
| "str_starts [] (c # cs) = False"
| "str_starts (d # ds) (c # cs) = (d = c \<and> str_starts ds cs)"

fun str_includes :: "string \<Rightarrow> string \<Rightarrow> bool" where
  "str_includes [] t = (t = [])"
| "str_includes (d # ds) t = (str_starts (d # ds) t \<or> str_includes ds t)"

definition js_includes :: "string \<Rightarrow> jsval \<Rightarrow> bool" where
  "js_includes s v = str_includes s (js_to_string v)"

text \<open>The number of blank cells of a puzzle string.\<close>

definition dots :: "string \<Rightarrow> nat" where
  "dots s = length (filter (\<lambda>c. c = CHR ''.'') s)"

section \<open>Facts about the primitives\<close>

lemma str_starts_single [js_simps]: "str_starts s [c] = (s \<noteq> [] \<and> hd s = c)"
  by (cases s) auto

lemma str_includes_single [js_simps]: "str_includes s [c] = (c \<in> set s)"
  by (induction s) (auto simp: str_starts_single)

lemma js_includes_char [js_simps]: "js_includes s (JStr [c]) = (c \<in> set s)"
  by (simp add: js_includes_def str_includes_single)

lemma nat_str_digit [js_simps]: "n < 10 \<Longrightarrow> nat_str n = [''0123456789'' ! n]"
  by simp

lemma js_strict_eq_char [js_simps]:
  "js_strict_eq (js_char_at s i) (JStr [c]) = (i < length s \<and> s ! i = c)"
  by (simp add: js_char_at_def)

lemma js_not_dot [js_simps]: "\<not> js_strict_eq (js_not v) (JStr s)"
  by (simp add: js_not_def)

lemma length_js_slice [js_simps]: "length (js_slice s b (b + n)) = min n (length s - b)"
  by (simp add: js_slice_def)

lemma nth_js_slice [js_simps]:
  "b + i < length s \<Longrightarrow> i < n \<Longrightarrow> js_slice s b (b + n) ! i = s ! (b + i)"
  by (simp add: js_slice_def)

lemma js_slice_9_map [js_simps]:
  "b + 9 \<le> length s \<Longrightarrow> js_slice s b (b + 9) = map (\<lambda>k. s ! (b + k)) [0..<9]"
  by (rule nth_equalityI) (simp_all add: js_slice_def)

lemma js_substr_9_map [js_simps]:
  "b + 9 \<le> length s \<Longrightarrow> js_substr s b 9 = map (\<lambda>k. s ! (b + k)) [0..<9]"
  by (rule nth_equalityI) (simp_all add: js_substr_def)

lemma dots_le_pointwise:
  assumes "length xs = length ys"
    and "\<And>i. i < length xs \<Longrightarrow> xs ! i = CHR ''.'' \<Longrightarrow> ys ! i = CHR ''.''"
  shows "dots xs \<le> dots ys"
  using assms
proof (induction xs arbitrary: ys)
  case Nil
  then show ?case by (simp add: dots_def)
next
  case (Cons x xs)
  then obtain y ys' where ys: "ys = y # ys'" by (cases ys) auto
  with Cons.prems have "dots xs \<le> dots ys'"
    by (intro Cons.IH) force+
  moreover from Cons.prems ys have "x = CHR ''.'' \<Longrightarrow> y = CHR ''.''" by force
  ultimately show ?case using ys by (auto simp: dots_def)
qed

lemma dots_less_pointwise:
  assumes "length xs = length ys"
    and "\<And>i. i < length xs \<Longrightarrow> xs ! i = CHR ''.'' \<Longrightarrow> ys ! i = CHR ''.''"
    and "\<And>i. i < length xs \<Longrightarrow> ys ! i \<noteq> CHR ''.'' \<Longrightarrow> xs ! i = ys ! i"
    and "xs \<noteq> ys"
  shows "dots xs < dots ys"
  using assms
proof (induction xs arbitrary: ys)
  case Nil
  then show ?case by simp
next
  case (Cons x xs)
  then obtain y ys' where ys: "ys = y # ys'" by (cases ys) auto
  from Cons.prems ys have len: "length xs = length ys'" by simp
  from Cons.prems ys have dot: "\<And>i. i < length xs \<Longrightarrow> xs ! i = CHR ''.'' \<Longrightarrow> ys' ! i = CHR ''.''"
    by force
  from Cons.prems ys have keep: "\<And>i. i < length xs \<Longrightarrow> ys' ! i \<noteq> CHR ''.'' \<Longrightarrow> xs ! i = ys' ! i"
    by force
  from Cons.prems(2) ys have xy: "x = CHR ''.'' \<Longrightarrow> y = CHR ''.''" by force
  from Cons.prems(3) ys have yx: "y \<noteq> CHR ''.'' \<Longrightarrow> x = y" by force
  show ?case
  proof (cases "x = y")
    case True
    with Cons.prems(4) ys have "xs \<noteq> ys'" by simp
    with len dot keep have "dots xs < dots ys'" by (rule Cons.IH)
    with True ys show ?thesis by (simp add: dots_def)
  next
    case False
    with xy yx have "y = CHR ''.''" "x \<noteq> CHR ''.''" by auto
    moreover from len dot have "dots xs \<le> dots ys'" by (rule dots_le_pointwise)
    ultimately show ?thesis using ys by (simp add: dots_def)
  qed
qed

section \<open>Nested loops as lists\<close>

text \<open>A loop that appends a block per index builds the concatenation of the blocks;
  the 3x3 box of two nested loops over three indices each, and its element at the
  offset \<open>i * 3 + j\<close>.\<close>

lemma foldl_append_map: "foldl (\<lambda>acc i. acc @ f i) acc xs = acc @ concat (map f xs)"
  by (induction xs arbitrary: acc) auto

lemma upt_3: "[a..<a + 3] = [a, Suc a, Suc (Suc a)]"
  by (simp add: upt_rec)

lemma nth_box:
  assumes "i < 3" "j < 3"
  shows "concat (map (\<lambda>i. map (f i) [d..<d + 3]) [b..<b + 3]) ! (i * 3 + j) = f (b + i) (d + j)"
  using assms by (auto simp: upt_3 numeral_3_eq_3 less_Suc_eq)

end
