(* ===== verification/Validate.thy ===== *)
theory Validate
  imports Prelude
begin

text \<open>
  The format validator, \<^verbatim>\<open>SudokuSolver.validate\<close> (lines 5--18 of
  \<^verbatim>\<open>src/controllers/sudoku-solver.js\<close>). It returns \<^verbatim>\<open>true\<close> or an object
  \<^verbatim>\<open>{error: message}\<close>; the model returns \<open>Valid\<close> or
  \<open>ValidationError\<close> with the kind of error, whose message is
  \<open>error_message\<close>. The length test comes first and short-circuits; the regular
  expression \<^verbatim>\<open>/^[0-9.]{81}$/\<close> is \<open>puzzle_regex\<close>.
\<close>

datatype format_error = WrongLength | InvalidCharacters

datatype validation = Valid | ValidationError format_error

definition error_message :: "format_error \<Rightarrow> string" where
  "error_message e = (case e of
      WrongLength \<Rightarrow> ''Expected puzzle to be 81 characters long''
    | InvalidCharacters \<Rightarrow> ''Invalid characters in puzzle'')"

text \<open>The character class \<^verbatim>\<open>[0-9.]\<close>.\<close>

definition puzzle_char :: "char \<Rightarrow> bool" where
  "puzzle_char c = (c \<in> set ''0123456789.'')"

text \<open>\<^verbatim>\<open>/^[0-9.]{81}$/.test(s)\<close>: exactly 81 characters of the class, anchored at both ends.\<close>

definition puzzle_regex :: "string \<Rightarrow> bool" where
  "puzzle_regex s = (length s = 81 \<and> list_all puzzle_char s)"

definition validate :: "string \<Rightarrow> validation" where
  "validate puzzleString =
     (if length puzzleString \<noteq> 81 then ValidationError WrongLength
      else if \<not> puzzle_regex puzzleString then ValidationError InvalidCharacters
      else Valid)"

text \<open>A well-formed grid: what a successful validation guarantees to the rest of the engine.\<close>

definition well_formed :: "string \<Rightarrow> bool" where
  "well_formed s = (length s = 81 \<and> (\<forall>c \<in> set s. puzzle_char c))"

section \<open>Properties of the validator\<close>

lemma validate_Valid_iff: "validate s = Valid \<longleftrightarrow> well_formed s"
  by (auto simp: validate_def puzzle_regex_def well_formed_def list_all_iff)

lemma well_formed_length [grid_simps]: "well_formed s \<Longrightarrow> length s = 81"
  by (simp add: well_formed_def)

text \<open>C5: every string whose length is not 81 is reported as \<^const>\<open>WrongLength\<close>,
  whatever characters it holds: the length test short-circuits.\<close>

theorem validate_wrong_length:
  "length s \<noteq> 81 \<Longrightarrow> validate s = ValidationError WrongLength"
  by (simp add: validate_def)

theorem validate_wrong_length_witness:
  "length ''x12'' \<noteq> 81 \<and> validate ''x12'' = ValidationError WrongLength"
  using validate_wrong_length [of "''x12''"] by simp

text \<open>C6: a string of length 81 holding a character outside \<^verbatim>\<open>[0-9.]\<close> is reported
  as \<^const>\<open>InvalidCharacters\<close>.\<close>

theorem validate_invalid_characters:
  assumes "length s = 81" and "c \<in> set s" and "\<not> puzzle_char c"
  shows "validate s = ValidationError InvalidCharacters"
  using assms by (auto simp: validate_def puzzle_regex_def list_all_iff)

theorem validate_invalid_characters_witness:
  "length (CHR ''x'' # replicate 80 CHR ''.'') = 81 \<and>
   CHR ''x'' \<in> set (CHR ''x'' # replicate 80 CHR ''.'') \<and> \<not> puzzle_char CHR ''x'' \<and>
   validate (CHR ''x'' # replicate 80 CHR ''.'') = ValidationError InvalidCharacters"
proof -
  have h: "length (CHR ''x'' # replicate 80 CHR ''.'') = 81"
    "CHR ''x'' \<in> set (CHR ''x'' # replicate 80 CHR ''.'')" "\<not> puzzle_char CHR ''x''"
    by (simp_all add: puzzle_char_def)
  show ?thesis using h validate_invalid_characters [OF h] by simp
qed

text \<open>C7: a string of length 81 over \<^verbatim>\<open>[0-9.]\<close> is \<^const>\<open>Valid\<close>, and nothing else is.\<close>

theorem validate_valid:
  "validate s = Valid \<longleftrightarrow> length s = 81 \<and> (\<forall>c \<in> set s. c \<in> set ''0123456789.'')"
  by (simp add: validate_Valid_iff well_formed_def puzzle_char_def)

theorem validate_valid_witness:
  "validate (replicate 81 CHR ''5'') = Valid \<and>
   validate (CHR ''x'' # replicate 80 CHR ''5'') \<noteq> Valid"
  using validate_valid [of "replicate 81 CHR ''5''"]
    validate_valid [of "CHR ''x'' # replicate 80 CHR ''5''"] by simp

end
