(* ===== verification/Houses.thy ===== *)
theory Houses
  imports Validate
begin

text \<open>
  The geometry of the 9x9 grid and the abstract specification the engine is measured
  against (spec sections 3, 4.2 and 4.3). A grid is the 81-character string itself,
  row-major, cell \<open>r * 9 + c\<close>. A house is a row, a column or a 3x3 region;
  \<open>house_cells\<close> lists its nine cell indices for a given cell. The specification's
  placement rule (\<open>legal_in_house\<close>: the value already at the target cell is legal,
  the value anywhere else in the house is not), its candidate set
  (\<open>candidates_spec\<close>), a solved grid (\<open>solved_spec\<close>: every house a permutation of
  1--9) and the relation of a solution to its puzzle (\<open>extends_grid\<close>) are stated here
  once, as executable functions, and the component theories are proved against them.
  None of these is code of the repository.
\<close>

datatype house = Row | Column | Region

definition house_cells :: "house \<Rightarrow> nat \<Rightarrow> nat \<Rightarrow> nat list" where
  "house_cells h r c = (case h of
      Row \<Rightarrow> map (\<lambda>j. r * 9 + j) [0..<9]
    | Column \<Rightarrow> map (\<lambda>i. i * 9 + c) [0..<9]
    | Region \<Rightarrow> concat (map (\<lambda>i. map (\<lambda>j. i * 9 + j) [c div 3 * 3..<c div 3 * 3 + 3])
                                [r div 3 * 3..<r div 3 * 3 + 3]))"

definition legal_in_house :: "string \<Rightarrow> house \<Rightarrow> nat \<Rightarrow> nat \<Rightarrow> char \<Rightarrow> bool" where
  "legal_in_house g h r c v =
     (g ! (r * 9 + c) = v \<or> list_all (\<lambda>k. k = r * 9 + c \<or> g ! k \<noteq> v) (house_cells h r c))"

definition digits19 :: string where
  "digits19 = ''123456789''"

definition candidates_spec :: "string \<Rightarrow> nat \<Rightarrow> string" where
  "candidates_spec g i =
     filter (\<lambda>d. list_all (\<lambda>h. legal_in_house g h (i div 9) (i mod 9) d) [Row, Column, Region])
       digits19"

definition perm19 :: "string \<Rightarrow> bool" where
  "perm19 s = (length s = 9 \<and> set s = set digits19)"

text \<open>The \<open>k\<close>-th house of each shape, as the nine characters it holds.\<close>

definition house_anchor :: "house \<Rightarrow> nat \<Rightarrow> nat \<times> nat" where
  "house_anchor h k = (case h of
      Row \<Rightarrow> (k, 0) | Column \<Rightarrow> (0, k) | Region \<Rightarrow> (k div 3 * 3, k mod 3 * 3))"

definition house_string :: "string \<Rightarrow> house \<Rightarrow> nat \<Rightarrow> string" where
  "house_string g h k = map (\<lambda>i. g ! i) (case house_anchor h k of (r, c) \<Rightarrow> house_cells h r c)"

definition solved_spec :: "string \<Rightarrow> bool" where
  "solved_spec g = (length g = 81 \<and>
     list_all (\<lambda>h. list_all (\<lambda>k. perm19 (house_string g h k)) [0..<9]) [Row, Column, Region])"

text \<open>What a terminal check of rows and columns alone establishes.\<close>

definition rowcol_solved :: "string \<Rightarrow> bool" where
  "rowcol_solved g =
     list_all (\<lambda>k. perm19 (house_string g Row k) \<and> perm19 (house_string g Column k)) [0..<9]"

definition extends_grid :: "string \<Rightarrow> string \<Rightarrow> bool" where
  "extends_grid p g = (length g = length p \<and>
     list_all (\<lambda>i. p ! i = CHR ''.'' \<or> g ! i = p ! i) [0..<length p])"

section \<open>Geometry\<close>

lemma house_cells_Row [grid_simps]: "house_cells Row r c = map (\<lambda>j. r * 9 + j) [0..<9]"
  by (simp add: house_cells_def)

lemma house_cells_Column [grid_simps]: "house_cells Column r c = map (\<lambda>i. i * 9 + c) [0..<9]"
  by (simp add: house_cells_def)

lemma box_start_bound [grid_simps]: "(r::nat) < 9 \<Longrightarrow> r div 3 * 3 + 3 \<le> 9"
  by presburger

lemma box_start_range [grid_simps]: "(r::nat) div 3 * 3 \<le> r \<and> r < r div 3 * 3 + 3"
  by presburger

lemma house_cells_bound [grid_simps]:
  assumes "r < 9" "c < 9" "k \<in> set (house_cells h r c)"
  shows "k < 81"
proof (cases h)
  case Region
  with assms obtain i where i: "i < r div 3 * 3 + 3" and k: "k < i * 9 + (c div 3 * 3 + 3)"
    by (auto simp: house_cells_def)
  from assms(1) i have "i \<le> 8" using box_start_bound [of r] by linarith
  with k show ?thesis using box_start_bound [OF assms(2)] by linarith
qed (use assms in \<open>auto simp: house_cells_def\<close>)

lemma cell_in_house [grid_simps]:
  assumes "r < 9" "c < 9"
  shows "r * 9 + c \<in> set (house_cells h r c)"
proof (cases h)
  case Region
  let ?cols = "\<lambda>i. map (\<lambda>j. i * 9 + j) [c div 3 * 3..<c div 3 * 3 + 3]"
  have hr: "r \<in> set [r div 3 * 3..<r div 3 * 3 + 3]" using box_start_range [of r] by simp
  have hc: "r * 9 + c \<in> set (?cols r)" using box_start_range [of c] by simp
  have "?cols r \<in> set (map ?cols [r div 3 * 3..<r div 3 * 3 + 3])"
    using imageI [OF hr, of ?cols] by simp
  with hc have "r * 9 + c \<in> set (concat (map ?cols [r div 3 * 3..<r div 3 * 3 + 3]))"
    unfolding set_concat by blast
  with Region show ?thesis by (simp add: house_cells_def)
qed (use assms in \<open>auto simp: house_cells_def\<close>)

lemma length_house_cells [grid_simps]: "length (house_cells h r c) = 9"
proof -
  have "length (concat (map (\<lambda>i. map (\<lambda>j. i * 9 + j) [c div 3 * 3..<c div 3 * 3 + 3])
           [r div 3 * 3..<r div 3 * 3 + 3])) = 9"
    by (simp add: length_concat o_def sum_list_triv)
  then show ?thesis by (cases h) (simp_all add: house_cells_def)
qed

lemma extends_grid_refl [simp]: "extends_grid g g"
  by (simp add: extends_grid_def list_all_iff)

lemma extends_grid_antisym:
  "extends_grid p q \<Longrightarrow> extends_grid q p \<Longrightarrow> p = q"
  unfolding extends_grid_def list_all_iff by (metis atLeastLessThan_iff nth_equalityI set_upt zero_le)

lemma extends_grid_trans:
  "extends_grid p q \<Longrightarrow> extends_grid q r \<Longrightarrow> extends_grid p r"
  by (fastforce simp: extends_grid_def list_all_iff)

lemma house_string_Row [grid_simps]: "house_string g Row k = map (\<lambda>j. g ! (k * 9 + j)) [0..<9]"
  by (simp add: house_string_def house_anchor_def house_cells_Row)

lemma house_string_Column [grid_simps]: "house_string g Column k = map (\<lambda>i. g ! (i * 9 + k)) [0..<9]"
  by (simp add: house_string_def house_anchor_def house_cells_Column)

lemma perm19_digits: "perm19 s \<Longrightarrow> c \<in> set s \<Longrightarrow> c \<in> set digits19"
  by (simp add: perm19_def)

text \<open>Every cell of a grid lies in the row of its index.\<close>

lemma cell_in_row_string:
  "g ! i \<in> set (house_string g Row (i div 9))"
  unfolding house_string_Row set_map by (rule rev_image_eqI [of "i mod 9"]) simp_all

end
