(* ===== verification/Placement.thy ===== *)
theory Placement
  imports Houses
begin

text \<open>
  The three placement checkers of \<^verbatim>\<open>src/controllers/sudoku-solver.js\<close>:
  \<^verbatim>\<open>checkRowPlacement\<close> (lines 20--37), \<^verbatim>\<open>checkColPlacement\<close> (lines 39--59) and
  \<^verbatim>\<open>checkRegionPlacement\<close> (lines 61--91), each translated branch by branch on the
  JavaScript values of the prelude: the house is built as a string, the first test is
  \<^verbatim>\<open>house[idx] === value\<close>, the second \<^verbatim>\<open>house.includes(value) && ...\<close>, and the
  third is the guard \<^verbatim>\<open>!house[idx] === "."\<close>, which compares a boolean with a string
  and is therefore never true. The value argument is a JavaScript value: the solver
  passes \<^verbatim>\<open>j.toString()\<close>, the unit tests pass numbers.
  The aggregate check \<open>checkPlacement\<close> is the caller in the HTTP route, which is
  not part of \<^verbatim>\<open>src/\<close>; it is modelled from spec section 4.2 (every house is checked,
  and each rejecting house is reported).
\<close>

definition checkRowPlacement :: "string \<Rightarrow> nat \<Rightarrow> nat \<Rightarrow> jsval \<Rightarrow> bool" where
  "checkRowPlacement puzzleString row column value =
     (let checkedRow = js_slice puzzleString (row * 9) (row * 9 + 9) in
      if js_strict_eq (js_char_at checkedRow column) value then True
      else if js_includes checkedRow value \<and> \<not> js_strict_eq (js_char_at checkedRow column) value
      then False
      else if js_strict_eq (js_not (js_char_at checkedRow column)) (JStr ''.'') then False
      else True)"

text \<open>The column string: \<^verbatim>\<open>for (i = 0; i < 9; i++) checkedCol += puzzleString[i * 9 + column]\<close>.\<close>

definition build_col :: "string \<Rightarrow> nat \<Rightarrow> string" where
  "build_col puzzleString column =
     foldl (\<lambda>acc i. js_concat acc (js_char_at puzzleString (i * 9 + column))) [] [0..<9]"

definition checkColPlacement :: "string \<Rightarrow> nat \<Rightarrow> nat \<Rightarrow> jsval \<Rightarrow> bool" where
  "checkColPlacement puzzleString row column value =
     (let checkedCol = build_col puzzleString column in
      if js_strict_eq (js_char_at checkedCol row) value then True
      else if js_includes checkedCol value \<and> \<not> js_strict_eq (js_char_at checkedCol row) value
      then False
      else if js_strict_eq (js_not (js_char_at checkedCol row)) (JStr ''.'') then False
      else True)"

text \<open>The region string: the two nested loops over the 3x3 box of the cell.\<close>

definition build_region :: "string \<Rightarrow> nat \<Rightarrow> nat \<Rightarrow> string" where
  "build_region puzzleString regionRow regionCol =
     foldl (\<lambda>acc i. foldl (\<lambda>acc j. js_concat acc (js_char_at puzzleString (i * 9 + j))) acc
                        [regionCol * 3..<regionCol * 3 + 3])
       [] [regionRow * 3..<regionRow * 3 + 3]"

definition checkRegionPlacement :: "string \<Rightarrow> nat \<Rightarrow> nat \<Rightarrow> jsval \<Rightarrow> bool" where
  "checkRegionPlacement puzzleString row column value =
     (let regionRow = row div 3; regionCol = column div 3;
          checkedRegion = build_region puzzleString regionRow regionCol;
          cell = js_char_at puzzleString (row * 9 + column) in
      if js_strict_eq cell value then True
      else if js_includes checkedRegion value \<and> \<not> js_strict_eq cell value then True
      else if js_strict_eq (js_not (js_char_at checkedRegion (row mod 3 * 3 + column mod 3))) (JStr ''.'')
      then False
      else True)"

definition house_check :: "house \<Rightarrow> string \<Rightarrow> nat \<Rightarrow> nat \<Rightarrow> jsval \<Rightarrow> bool" where
  "house_check h = (case h of
      Row \<Rightarrow> checkRowPlacement | Column \<Rightarrow> checkColPlacement | Region \<Rightarrow> checkRegionPlacement)"

text \<open>The route's aggregate check: the houses that reject the value, in the order
  row, column, region, without short-circuiting.\<close>

definition checkPlacement :: "string \<Rightarrow> nat \<Rightarrow> nat \<Rightarrow> jsval \<Rightarrow> house list" where
  "checkPlacement puzzleString row column value =
     filter (\<lambda>h. \<not> house_check h puzzleString row column value) [Row, Column, Region]"

section \<open>The houses the checkers build\<close>

lemma foldl_js_concat_char_at:
  "(\<And>i. i \<in> set xs \<Longrightarrow> f i < length s) \<Longrightarrow>
   foldl (\<lambda>acc i. js_concat acc (js_char_at s (f i))) acc xs = acc @ map (\<lambda>i. s ! f i) xs"
  by (induction xs arbitrary: acc) (simp_all add: js_concat_def js_char_at_def)

lemma checked_row [grid_simps]:
  "length s = 81 \<Longrightarrow> row < 9 \<Longrightarrow>
   js_slice s (row * 9) (row * 9 + 9) = map (\<lambda>k. s ! k) (house_cells Row row column)"
  by (simp add: js_slice_9_map house_cells_Row)

lemma build_col_cells [grid_simps]:
  "length s = 81 \<Longrightarrow> column < 9 \<Longrightarrow>
   build_col s column = map (\<lambda>k. s ! k) (house_cells Column row column)"
  unfolding build_col_def house_cells_Column
  by (subst foldl_js_concat_char_at) auto

lemma build_region_cells [grid_simps]:
  assumes "length s = 81" "row < 9" "column < 9"
  shows "build_region s (row div 3) (column div 3) = map (\<lambda>k. s ! k) (house_cells Region row column)"
proof -
  have "build_region s (row div 3) (column div 3) =
        foldl (\<lambda>acc i. acc @ map (\<lambda>j. s ! (i * 9 + j)) [column div 3 * 3..<column div 3 * 3 + 3]) []
          [row div 3 * 3..<row div 3 * 3 + 3]"
    unfolding build_region_def
  proof (rule foldl_cong)
    fix acc i assume "i \<in> set [row div 3 * 3..<row div 3 * 3 + 3]"
    then have "i \<le> 8" using box_start_bound [OF assms(2)] by auto
    moreover have "\<And>j. j \<in> set [column div 3 * 3..<column div 3 * 3 + 3] \<Longrightarrow> j \<le> 8"
      using box_start_bound [OF assms(3)] by auto
    ultimately show "foldl (\<lambda>acc j. js_concat acc (js_char_at s (i * 9 + j))) acc
                       [column div 3 * 3..<column div 3 * 3 + 3]
        = acc @ map (\<lambda>j. s ! (i * 9 + j)) [column div 3 * 3..<column div 3 * 3 + 3]"
      using assms(1) by (intro foldl_js_concat_char_at) fastforce
  qed simp_all
  then show ?thesis by (simp add: foldl_append_map house_cells_def map_concat o_def)
qed

lemma house_cells_Region_nth [grid_simps]:
  "house_cells Region row column ! (row mod 3 * 3 + column mod 3) = row * 9 + column"
proof -
  have "house_cells Region row column ! (row mod 3 * 3 + column mod 3) =
        (row div 3 * 3 + row mod 3) * 9 + (column div 3 * 3 + column mod 3)"
    unfolding house_cells_def house.case by (rule nth_box) simp_all
  then show ?thesis by simp
qed

text \<open>The branch structure shared by the row and the column checker, on a house
  built from the grid: it accepts exactly when the value is at the target cell or
  nowhere in the house.\<close>

lemma house_branches_spec:
  assumes "idx < length cells" "cells ! idx = t"
  shows "(let hs = map (\<lambda>k. s ! k) cells in
          if js_strict_eq (js_char_at hs idx) (JStr [v]) then True
          else if js_includes hs (JStr [v]) \<and> \<not> js_strict_eq (js_char_at hs idx) (JStr [v])
          then False
          else if js_strict_eq (js_not (js_char_at hs idx)) (JStr ''.'') then False
          else True)
       = (s ! t = v \<or> list_all (\<lambda>k. k = t \<or> s ! k \<noteq> v) cells)"
proof -
  have at: "js_char_at (map (\<lambda>k. s ! k) cells) idx = JStr [s ! t]"
    using assms by (simp add: js_char_at_def)
  show ?thesis using assms by (auto simp: at js_includes_char js_not_dot list_all_iff)
qed

lemma house_cells_Row_nth [grid_simps]: "column < 9 \<Longrightarrow> house_cells Row row column ! column = row * 9 + column"
  by (simp add: house_cells_Row)

lemma house_cells_Column_nth [grid_simps]: "row < 9 \<Longrightarrow> house_cells Column row column ! row = row * 9 + column"
  by (simp add: house_cells_Column)

section \<open>The checkers against the specification\<close>

lemma row_check_legal:
  assumes "length s = 81" "row < 9" "column < 9"
  shows "checkRowPlacement s row column (JStr [v]) = legal_in_house s Row row column v"
proof -
  have "checkRowPlacement s row column (JStr [v]) =
        (let hs = map (\<lambda>k. s ! k) (house_cells Row row column) in
          if js_strict_eq (js_char_at hs column) (JStr [v]) then True
          else if js_includes hs (JStr [v]) \<and> \<not> js_strict_eq (js_char_at hs column) (JStr [v])
          then False
          else if js_strict_eq (js_not (js_char_at hs column)) (JStr ''.'') then False
          else True)"
    unfolding checkRowPlacement_def checked_row [of s row column, OF assms(1,2)] by (rule refl)
  also have "\<dots> = legal_in_house s Row row column v"
    unfolding legal_in_house_def
    by (rule house_branches_spec) (simp_all add: assms grid_simps)
  finally show ?thesis .
qed

lemma col_check_legal:
  assumes "length s = 81" "row < 9" "column < 9"
  shows "checkColPlacement s row column (JStr [v]) = legal_in_house s Column row column v"
proof -
  have "checkColPlacement s row column (JStr [v]) =
        (let hs = map (\<lambda>k. s ! k) (house_cells Column row column) in
          if js_strict_eq (js_char_at hs row) (JStr [v]) then True
          else if js_includes hs (JStr [v]) \<and> \<not> js_strict_eq (js_char_at hs row) (JStr [v])
          then False
          else if js_strict_eq (js_not (js_char_at hs row)) (JStr ''.'') then False
          else True)"
    unfolding checkColPlacement_def build_col_cells [of s column row, OF assms(1,3)] by (rule refl)
  also have "\<dots> = legal_in_house s Column row column v"
    unfolding legal_in_house_def
    by (rule house_branches_spec) (simp_all add: assms grid_simps)
  finally show ?thesis .
qed

lemma region_check_True: "checkRegionPlacement s row column value = True"
  by (simp add: checkRegionPlacement_def Let_def js_not_dot)

lemma house_check_Region: "house_check Region s row column value"
  by (simp add: house_check_def region_check_True)

section \<open>Claims about the placement checkers\<close>

text \<open>C3: on a grid of 81 characters, \<^verbatim>\<open>checkRowPlacement\<close> with a one-character
  string value is exactly the specification's row rule: legal when the value is already
  at the target cell, illegal when it is elsewhere in the row, legal otherwise.\<close>

theorem checkRowPlacement_spec:
  "length s = 81 \<Longrightarrow> row < 9 \<Longrightarrow> column < 9 \<Longrightarrow>
   checkRowPlacement s row column (JStr [v]) = legal_in_house s Row row column v"
  by (rule row_check_legal)

theorem checkRowPlacement_spec_witness:
  "length (replicate 81 CHR ''.'') = 81 \<and> (0::nat) < 9 \<and> (1::nat) < 9 \<and>
   checkRowPlacement (replicate 81 CHR ''.'') 0 1 (JStr ''3'') =
     legal_in_house (replicate 81 CHR ''.'') Row 0 1 CHR ''3''"
  using checkRowPlacement_spec [of "replicate 81 CHR ''.''" 0 1 "CHR ''3''"] by simp

text \<open>C4: the same for \<^verbatim>\<open>checkColPlacement\<close> and the column rule.\<close>

theorem checkColPlacement_spec:
  "length s = 81 \<Longrightarrow> row < 9 \<Longrightarrow> column < 9 \<Longrightarrow>
   checkColPlacement s row column (JStr [v]) = legal_in_house s Column row column v"
  by (rule col_check_legal)

theorem checkColPlacement_spec_witness:
  "length (replicate 81 CHR ''.'') = 81 \<and> (0::nat) < 9 \<and> (1::nat) < 9 \<and>
   checkColPlacement (replicate 81 CHR ''.'') 0 1 (JStr ''3'') =
     legal_in_house (replicate 81 CHR ''.'') Column 0 1 CHR ''3''"
  using checkColPlacement_spec [of "replicate 81 CHR ''.''" 0 1 "CHR ''3''"] by simp

text \<open>C2: \<^verbatim>\<open>checkRegionPlacement\<close> accepts every placement: its conflict branch
  returns \<^verbatim>\<open>true\<close> and its remaining guard compares a boolean with a string.\<close>

theorem checkRegionPlacement_always_true: "checkRegionPlacement s row column value"
  unfolding checkRegionPlacement_def Let_def by (simp add: js_not_dot)

text \<open>C24: the region string that \<^verbatim>\<open>checkRegionPlacement\<close> builds from a grid of
  81 characters has nine characters, the cells of the 3x3 box in row-major order, and the
  index \<^verbatim>\<open>(row % 3) * 3 + (column % 3)\<close> of its last guard lies inside it and reads
  the target cell: the guard is dead because of its negation, not because of its index.\<close>

theorem build_region_bounds:
  assumes "length s = 81" "row < 9" "column < 9"
  shows "length (build_region s (row div 3) (column div 3)) = 9 \<and>
         row mod 3 * 3 + column mod 3 < 9 \<and>
         js_char_at (build_region s (row div 3) (column div 3)) (row mod 3 * 3 + column mod 3)
           = js_char_at s (row * 9 + column)"
proof -
  have lt: "row mod 3 * 3 + column mod 3 < 9" by linarith
  have "row * 9 + column < 81" using assms(2,3) by linarith
  then show ?thesis
    using assms lt by (simp add: build_region_cells length_house_cells house_cells_Region_nth js_char_at_def)
qed

theorem build_region_bounds_witness:
  "length (build_region (concat (replicate 9 digits19)) 1 2) = 9 \<and>
   js_char_at (build_region (concat (replicate 9 digits19)) 1 2) 5
     = js_char_at (concat (replicate 9 digits19)) 44"
proof -
  have "length (concat (replicate 9 digits19)) = 81" by (simp add: digits19_def numeral_eq_Suc)
  then show ?thesis using build_region_bounds [of "concat (replicate 9 digits19)" 4 8] by simp
qed

text \<open>C10: with a number as the value, as the unit tests pass it, the row checker
  rejects the digit that already stands in the target cell: \<^verbatim>\<open>===\<close> never equates
  a number with a string, while \<^verbatim>\<open>includes\<close> converts the number and finds it.\<close>

theorem checkRowPlacement_number_at_cell:
  assumes "length s = 81" "row < 9" "column < 9" "d < 10"
    and "s ! (row * 9 + column) = ''0123456789'' ! d"
  shows "\<not> checkRowPlacement s row column (JNum d)"
proof -
  have "''0123456789'' ! d \<in> set (js_slice s (row * 9) (row * 9 + 9))"
    using assms by (force simp: js_slice_9_map)
  then show ?thesis
    using assms by (simp add: checkRowPlacement_def Let_def js_includes_def js_char_at_def
        js_not_dot str_includes_single)
qed

theorem checkRowPlacement_number_at_cell_witness:
  "\<not> checkRowPlacement (replicate 81 CHR ''5'') 0 0 (JNum 5) \<and>
   checkRowPlacement (replicate 81 CHR ''5'') 0 0 (JStr ''5'')"
proof -
  have "\<not> checkRowPlacement (replicate 81 CHR ''5'') 0 0 (JNum 5)"
    by (rule checkRowPlacement_number_at_cell) simp_all
  then show ?thesis by (simp add: checkRowPlacement_def js_char_at_def js_slice_def)
qed

end
