(* ===== verification/Propagation.thy ===== *)
theory Propagation
  imports Placement
begin

text \<open>
  One propagation pass of \<^verbatim>\<open>SudokuSolver.solve\<close> (lines 111--139 of
  \<^verbatim>\<open>src/controllers/sudoku-solver.js\<close>), which runs only on a validated puzzle of
  81 characters that contains a blank. The first loop (lines 112--128) builds
  \<open>tempSolution\<close>: a filled cell is pushed as its one-character string, a blank as the
  array \<open>possibleVals\<close> of the digits \<^verbatim>\<open>j.toString()\<close> that pass all three placement
  checkers (lines 118--125). The second loop (lines 131--137) replaces every entry of
  length one by its first element and every other entry by \<^verbatim>\<open>"."\<close>
  (\<open>resolve_entry\<close>), and \<^verbatim>\<open>join("")\<close> (line 139) gives \<open>newPuzzle\<close>.
  Every candidate set is computed on the snapshot the pass started from.
  \<open>next_cell\<close> is a per-cell reference formulation of the same pass; the theory
  proves the two equal and derives what the pass does to a grid: it keeps the format,
  never changes a filled cell, returns a complete grid unchanged, and leaves a grid in
  which two digits occur nowhere unchanged.
\<close>

definition possibleVals :: "string \<Rightarrow> nat \<Rightarrow> string list" where
  "possibleVals puzzleString i =
     map (\<lambda>j. nat_str j)
       (filter (\<lambda>j. checkRowPlacement puzzleString (i div 9) (i mod 9) (JStr (nat_str j)) \<and>
                    checkColPlacement puzzleString (i div 9) (i mod 9) (JStr (nat_str j)) \<and>
                    checkRegionPlacement puzzleString (i div 9) (i mod 9) (JStr (nat_str j)))
          [1..<10])"

datatype temp_entry = TStr string | TArr "string list"

definition tempSolution :: "string \<Rightarrow> temp_entry list" where
  "tempSolution puzzleString =
     map (\<lambda>i. if \<not> js_strict_eq (js_char_at puzzleString i) (JStr ''.'')
              then TStr (js_to_string (js_char_at puzzleString i))
              else TArr (possibleVals puzzleString i))
       [0..<81]"

definition temp_length :: "temp_entry \<Rightarrow> nat" where
  "temp_length e = (case e of TStr s \<Rightarrow> length s | TArr xs \<Rightarrow> length xs)"

definition resolve_entry :: "temp_entry \<Rightarrow> string" where
  "resolve_entry e =
     (if temp_length e = 1 then (case e of TStr s \<Rightarrow> [s ! 0] | TArr xs \<Rightarrow> xs ! 0) else ''.'')"

definition newPuzzle :: "string \<Rightarrow> string" where
  "newPuzzle puzzleString = concat (map resolve_entry (tempSolution puzzleString))"

text \<open>The reference pass: a filled cell is kept; a blank becomes its only candidate with
  respect to its row and its column, if it has exactly one.\<close>

definition rowcol_candidates :: "string \<Rightarrow> nat \<Rightarrow> string" where
  "rowcol_candidates g i =
     filter (\<lambda>d. legal_in_house g Row (i div 9) (i mod 9) d \<and> legal_in_house g Column (i div 9) (i mod 9) d)
       digits19"

definition next_cell :: "string \<Rightarrow> nat \<Rightarrow> char" where
  "next_cell g i =
     (if g ! i \<noteq> CHR ''.'' then g ! i
      else case rowcol_candidates g i of [d] \<Rightarrow> d | _ \<Rightarrow> CHR ''.'')"

section \<open>The pass equals its reference\<close>

lemma nat_str_digits19: "map nat_str [1..<10] = map (\<lambda>d. [d]) digits19"
  by (simp add: digits19_def upt_rec)

lemma filter_singletons:
  "filter P (map (\<lambda>d. [d]) ds) = map (\<lambda>d. [d]) (filter (\<lambda>d. P [d]) ds)"
  by (simp add: filter_map o_def)

lemma possibleVals_rowcol:
  assumes "length g = 81" "i < 81"
  shows "possibleVals g i = map (\<lambda>d. [d]) (rowcol_candidates g i)"
proof -
  have rc: "i div 9 < 9" "i mod 9 < 9" using assms(2) by auto
  have "possibleVals g i =
        filter (\<lambda>s. checkRowPlacement g (i div 9) (i mod 9) (JStr s) \<and>
                    checkColPlacement g (i div 9) (i mod 9) (JStr s)) (map nat_str [1..<10])"
    unfolding possibleVals_def region_check_True by (simp add: filter_map o_def)
  also have "\<dots> = map (\<lambda>d. [d]) (rowcol_candidates g i)"
    unfolding nat_str_digits19 filter_singletons rowcol_candidates_def
    using rc by (simp add: row_check_legal [OF assms(1)] col_check_legal [OF assms(1)])
  finally show ?thesis .
qed

lemma resolve_entry_cell:
  assumes "length g = 81" "i < 81"
  shows "resolve_entry (if \<not> js_strict_eq (js_char_at g i) (JStr ''.'')
                        then TStr (js_to_string (js_char_at g i)) else TArr (possibleVals g i))
         = [next_cell g i]"
proof (cases "g ! i = CHR ''.''")
  case True
  with assms show ?thesis
    by (auto simp: js_char_at_def resolve_entry_def temp_length_def next_cell_def
        possibleVals_rowcol split: list.split)
next
  case False
  with assms show ?thesis
    by (simp add: js_char_at_def resolve_entry_def temp_length_def next_cell_def)
qed

lemma newPuzzle_map:
  assumes "length g = 81"
  shows "newPuzzle g = map (next_cell g) [0..<81]"
proof -
  have "map resolve_entry (tempSolution g) = map (\<lambda>i. [next_cell g i]) [0..<81]"
    unfolding tempSolution_def map_map o_def
    by (rule map_cong) (simp_all add: resolve_entry_cell [OF assms])
  then show ?thesis
    by (simp add: newPuzzle_def concat_map_singleton)
qed

lemma length_newPuzzle [simp]: "length g = 81 \<Longrightarrow> length (newPuzzle g) = 81"
  by (simp add: newPuzzle_map)

lemma nth_newPuzzle [simp]: "length g = 81 \<Longrightarrow> i < 81 \<Longrightarrow> newPuzzle g ! i = next_cell g i"
  by (simp add: newPuzzle_map)

lemma next_cell_filled [simp]: "g ! i \<noteq> CHR ''.'' \<Longrightarrow> next_cell g i = g ! i"
  by (simp add: next_cell_def)

lemma next_cell_blank:
  "g ! i = CHR ''.'' \<Longrightarrow> next_cell g i \<noteq> CHR ''.'' \<Longrightarrow>
   rowcol_candidates g i = [next_cell g i]"
  by (auto simp: next_cell_def split: list.splits)

lemma rowcol_candidates_digit: "d \<in> set (rowcol_candidates g i) \<Longrightarrow> d \<in> set digits19"
  by (simp add: rowcol_candidates_def)

lemma next_cell_char: "puzzle_char (g ! i) \<Longrightarrow> puzzle_char (next_cell g i)"
proof (cases "g ! i = CHR ''.'' \<and> next_cell g i \<noteq> CHR ''.''")
  case True
  then have "next_cell g i \<in> set digits19"
    using next_cell_blank [of g i] rowcol_candidates_digit [of "next_cell g i" g i] by simp
  then show ?thesis by (auto simp: puzzle_char_def digits19_def)
qed (auto simp: puzzle_char_def)

lemma well_formed_newPuzzle: "well_formed g \<Longrightarrow> well_formed (newPuzzle g)"
  unfolding well_formed_def
  by (auto simp: newPuzzle_map intro!: next_cell_char)

lemma validate_newPuzzle: "validate p = Valid \<Longrightarrow> validate (newPuzzle p) = Valid"
  by (simp add: validate_Valid_iff well_formed_newPuzzle)

lemma dots_newPuzzle_le: "length g = 81 \<Longrightarrow> dots (newPuzzle g) \<le> dots g"
  by (rule dots_le_pointwise) (auto simp: next_cell_def split: if_splits)

lemma dots_newPuzzle_less:
  "length g = 81 \<Longrightarrow> newPuzzle g \<noteq> g \<Longrightarrow> dots (newPuzzle g) < dots g"
  by (rule dots_less_pointwise) (auto simp: next_cell_def split: if_splits)

lemma extends_newPuzzle: "length g = 81 \<Longrightarrow> extends_grid g (newPuzzle g)"
  by (auto simp: extends_grid_def list_all_iff next_cell_def)

text \<open>A grid in which two digits occur nowhere is a fixpoint of the pass: every blank
  keeps both of them as candidates.\<close>

lemma legal_absent_digit:
  assumes "length g = 81" "r < 9" "c < 9" "d \<notin> set g"
  shows "legal_in_house g h r c d"
proof -
  have "\<forall>k \<in> set (house_cells h r c). g ! k \<noteq> d"
    using assms house_cells_bound [OF assms(2,3)] nth_mem by (metis)
  then show ?thesis by (simp add: legal_in_house_def list_all_iff)
qed
lemma newPuzzle_two_absent:
  assumes "length g = 81" "CHR ''2'' \<notin> set g" "CHR ''3'' \<notin> set g"
  shows "newPuzzle g = g"
proof -
  have "next_cell g i = g ! i" if "i < 81" for i
  proof (cases "g ! i = CHR ''.''")
    case True
    have rc: "i div 9 < 9" "i mod 9 < 9" using that by auto
    have "CHR ''2'' \<in> set (rowcol_candidates g i)" "CHR ''3'' \<in> set (rowcol_candidates g i)"
      using legal_absent_digit [OF assms(1) rc] assms(2,3) by (simp_all add: rowcol_candidates_def digits19_def)
    then have "length (rowcol_candidates g i) \<noteq> 1" by (auto simp: length_Suc_conv)
    with True show ?thesis by (auto simp: next_cell_def split: list.splits)
  qed simp
  then have "newPuzzle g = map (\<lambda>i. g ! i) [0..<length g]"
    using assms(1) by (simp add: newPuzzle_map)
  then show ?thesis by (simp add: map_nth)
qed
section \<open>Claims about the pass\<close>

text \<open>C11: the two loops of the pass and \<^verbatim>\<open>join\<close> compute, on a grid of 81
  characters, the per-cell reference pass: each cell is decided on the snapshot alone.\<close>

theorem newPuzzle_refines_next_cell:
  "length g = 81 \<Longrightarrow> newPuzzle g = map (next_cell g) [0..<81]"
  by (rule newPuzzle_map)

theorem newPuzzle_refines_next_cell_witness:
  "length (replicate 81 CHR ''.'') = 81 \<and>
   newPuzzle (replicate 81 CHR ''.'') = map (next_cell (replicate 81 CHR ''.'')) [0..<81]"
proof -
  have h: "length (replicate 81 CHR ''.'') = 81" by simp
  show ?thesis using h newPuzzle_refines_next_cell [OF h] by blast
qed

text \<open>C12: a pass either returns its input unchanged or has strictly fewer blanks:
  the fact that bounds the recursion of \<^verbatim>\<open>solve\<close>.\<close>

theorem newPuzzle_progress:
  "length g = 81 \<Longrightarrow> newPuzzle g = g \<or> dots (newPuzzle g) < dots g"
  using dots_newPuzzle_less by blast

theorem newPuzzle_progress_witness:
  "length (replicate 81 CHR ''.'') = 81 \<and>
   (newPuzzle (replicate 81 CHR ''.'') = replicate 81 CHR ''.'' \<or>
    dots (newPuzzle (replicate 81 CHR ''.'')) < dots (replicate 81 CHR ''.''))"
proof -
  have h: "length (replicate 81 CHR ''.'') = 81" by simp
  show ?thesis using h newPuzzle_progress [OF h] by blast
qed

text \<open>C13: a pass never changes a filled cell: its result extends its input.\<close>

theorem newPuzzle_extends:
  "length g = 81 \<Longrightarrow> extends_grid g (newPuzzle g)"
  by (rule extends_newPuzzle)

theorem newPuzzle_extends_witness:
  "length (replicate 81 CHR ''7'') = 81 \<and>
   extends_grid (replicate 81 CHR ''7'') (newPuzzle (replicate 81 CHR ''7''))"
proof -
  have h: "length (replicate 81 CHR ''7'') = 81" by simp
  show ?thesis using h newPuzzle_extends [OF h] by blast
qed

text \<open>C14: every blank the pass fills receives a digit that the specification's rule
  allows in its row and in its column of the snapshot, and that is the only such digit;
  the cell's region plays no part.\<close>

theorem newPuzzle_fills_rowcol_single:
  assumes "length g = 81" "i < 81" "g ! i = CHR ''.''" "newPuzzle g ! i \<noteq> CHR ''.''"
  shows "rowcol_candidates g i = [newPuzzle g ! i] \<and> newPuzzle g ! i \<in> set digits19 \<and>
         legal_in_house g Row (i div 9) (i mod 9) (newPuzzle g ! i) \<and>
         legal_in_house g Column (i div 9) (i mod 9) (newPuzzle g ! i)"
proof -
  have eq: "newPuzzle g ! i = next_cell g i" using assms(1,2) by simp
  have one: "rowcol_candidates g i = [next_cell g i]"
    using assms eq by (intro next_cell_blank) simp_all
  have "next_cell g i \<in> set (rowcol_candidates g i)" by (simp add: one)
  then have "next_cell g i \<in> set digits19 \<and>
         legal_in_house g Row (i div 9) (i mod 9) (next_cell g i) \<and>
         legal_in_house g Column (i div 9) (i mod 9) (next_cell g i)"
    unfolding rowcol_candidates_def by simp
  with one show ?thesis unfolding eq by simp
qed

theorem newPuzzle_fills_rowcol_single_witness:
  "rowcol_candidates ''.73891265851726394926345817568913472342687951197254638734162589685479123219538746'' 0
     = [newPuzzle ''.73891265851726394926345817568913472342687951197254638734162589685479123219538746'' ! 0]"
proof -
  let ?g = "''.73891265851726394926345817568913472342687951197254638734162589685479123219538746''"
  have h: "length ?g = 81" "(0::nat) < 81" "?g ! 0 = CHR ''.''" by simp_all
  have "next_cell ?g 0 = CHR ''4''"
    by code_simp
  then have "newPuzzle ?g ! 0 \<noteq> CHR ''.''" using h by simp
  from newPuzzle_fills_rowcol_single [OF h this] show ?thesis by blast
qed

text \<open>C22: the code's candidate set for a blank is the specification's without the
  region filter: the specification's candidates are exactly the code's candidates that
  the region allows.\<close>

theorem possibleVals_refines_candidates:
  assumes "length g = 81" "i < 81"
  shows "possibleVals g i = map (\<lambda>d. [d]) (rowcol_candidates g i) \<and>
         candidates_spec g i = filter (\<lambda>d. legal_in_house g Region (i div 9) (i mod 9) d) (rowcol_candidates g i)"
  using assms by (simp add: possibleVals_rowcol candidates_spec_def rowcol_candidates_def filter_filter conj_ac)

theorem possibleVals_refines_candidates_witness:
  "possibleVals (replicate 81 CHR ''.'') 0 = map (\<lambda>d. [d]) (rowcol_candidates (replicate 81 CHR ''.'') 0) \<and>
   candidates_spec (replicate 81 CHR ''.'') 0 =
     filter (\<lambda>d. legal_in_house (replicate 81 CHR ''.'') Region 0 0 d) (rowcol_candidates (replicate 81 CHR ''.'') 0)"
proof -
  have h: "length (replicate 81 CHR ''.'') = 81" "(0::nat) < 81" by simp_all
  from possibleVals_refines_candidates [OF h] show ?thesis by simp
qed

text \<open>C25: the pass keeps the type of its input: a puzzle that \<^verbatim>\<open>validate\<close>
  accepts is mapped to a puzzle it accepts (81 characters, digits and dots), so every
  nested call of \<^verbatim>\<open>solve\<close> passes its own validity check.\<close>

theorem newPuzzle_keeps_valid:
  "validate p = Valid \<Longrightarrow> validate (newPuzzle p) = Valid"
  by (rule validate_newPuzzle)

theorem newPuzzle_keeps_valid_witness:
  "validate (replicate 81 CHR ''.'') = Valid \<and> validate (newPuzzle (replicate 81 CHR ''.'')) = Valid"
proof -
  have h: "validate (replicate 81 CHR ''.'') = Valid"
    by (simp add: validate_Valid_iff well_formed_def puzzle_char_def)
  with newPuzzle_keeps_valid [OF h] show ?thesis by simp
qed

end
