(* ===== verification/Solver.thy ===== *)
theory Solver
  imports Propagation
begin

text \<open>
  \<^verbatim>\<open>SudokuSolver.solve\<close> (lines 93--181 of \<^verbatim>\<open>src/controllers/sudoku-solver.js\<close>)
  and the instance state it keeps. The class has one field, \<^verbatim>\<open>actualPuzzle\<close>, set to
  \<^verbatim>\<open>""\<close> by the constructor (lines 2--4): the record \<open>solver\<close> and \<open>new_solver\<close>.
  \<open>solve_with\<close> threads that state explicitly and returns it with the outcome: the
  value \<^verbatim>\<open>false\<close> (\<open>SFalse\<close>), a string (\<open>SString\<close>), or a thrown exception
  (\<open>Inl\<close>). The self-recursive call of line 140 is a recursive call of the model; it
  terminates because every call either fills a blank or repeats its input, which the
  resubmission guard of line 101 then refuses (the termination proof below).

  The terminal check (lines 142--179) calls \<^verbatim>\<open>this.isUnique\<close>, a method the class
  does not define. The check is therefore modelled over the method as a parameter
  \<open>isUnique\<close>: \<open>solve\<close>, the code as it is, instantiates it with
  \<open>isUnique_missing\<close>, which throws JavaScript's \<^verbatim>\<open>TypeError\<close>; \<open>isUnique_spec\<close>
  is the method the spec describes (a permutation of 1--9). The region loop of lines
  165--177 runs for \<^verbatim>\<open>reg < 0\<close>, that is never; \<open>solved_regions\<close> is that empty loop.
  Console output is not modelled.
\<close>

record solver =
  actualPuzzle :: string

definition new_solver :: solver where
  "new_solver = \<lparr>actualPuzzle = ''''\<rparr>"

datatype js_error = TypeError string

datatype solve_value = SFalse | SString string

type_synonym outcome = "js_error + solve_value"

text \<open>\<^verbatim>\<open>for (...) if (!this.isUnique(house)) return false;\<close> over a list of houses:
  the first house that is not unique ends the loop, an exception propagates.\<close>

fun check_unique :: "(string \<Rightarrow> js_error + bool) \<Rightarrow> string list \<Rightarrow> js_error + bool" where
  "check_unique isUnique [] = Inr True"
| "check_unique isUnique (h # hs) =
     (case isUnique h of
        Inl e \<Rightarrow> Inl e
      | Inr b \<Rightarrow> if \<not> b then Inr False else check_unique isUnique hs)"

definition solved_rows :: "string \<Rightarrow> string list" where
  "solved_rows puzzleString = map (\<lambda>i. js_substr puzzleString (i * 9) 9) [0..<9]"

definition solved_cols :: "string \<Rightarrow> string list" where
  "solved_cols puzzleString = map (\<lambda>j. build_col puzzleString j) [0..<9]"

definition box :: "string \<Rightarrow> nat \<Rightarrow> string" where
  "box puzzleString reg =
     foldl (\<lambda>acc i. foldl (\<lambda>acc j. js_concat acc
                 (js_char_at puzzleString (reg div 3 * 27 + i * 9 + reg mod 3 * 3 + j))) acc [0..<3])
       [] [0..<3]"

definition solved_regions :: "string \<Rightarrow> string list" where
  "solved_regions puzzleString = map (\<lambda>reg. box puzzleString reg) [0..<0]"

definition solved_check :: "(string \<Rightarrow> js_error + bool) \<Rightarrow> string \<Rightarrow> outcome" where
  "solved_check isUnique puzzleString =
     (case check_unique isUnique (solved_rows puzzleString) of
        Inl e \<Rightarrow> Inl e
      | Inr False \<Rightarrow> Inr SFalse
      | Inr True \<Rightarrow>
          (case check_unique isUnique (solved_cols puzzleString) of
             Inl e \<Rightarrow> Inl e
           | Inr False \<Rightarrow> Inr SFalse
           | Inr True \<Rightarrow>
               (case check_unique isUnique (solved_regions puzzleString) of
                  Inl e \<Rightarrow> Inl e
                | Inr False \<Rightarrow> Inr SFalse
                | Inr True \<Rightarrow> Inr (SString puzzleString))))"

function solve_with :: "(string \<Rightarrow> js_error + bool) \<Rightarrow> solver \<Rightarrow> string \<Rightarrow> solver \<times> outcome" where
  "solve_with isUnique st puzzleString =
     (if validate puzzleString \<noteq> Valid then (st, Inr SFalse)
      else if puzzleString = actualPuzzle st then (st, Inr SFalse)
      else if js_includes puzzleString (JStr ''.'')
      then solve_with isUnique (st\<lparr>actualPuzzle := puzzleString\<rparr>) (newPuzzle puzzleString)
      else (st, solved_check isUnique puzzleString))"
  by pat_completeness auto
termination
proof (relation "measure (\<lambda>(u, st, p). dots p + (if p = actualPuzzle st then 0 else 1))")
  fix isUnique :: "string \<Rightarrow> js_error + bool" and st :: solver and p :: string
  assume valid: "\<not> validate p \<noteq> Valid" and fresh: "p \<noteq> actualPuzzle st"
  have len: "length p = 81" using valid by (simp add: validate_Valid_iff well_formed_def)
  show "((isUnique, st\<lparr>actualPuzzle := p\<rparr>, newPuzzle p), isUnique, st, p)
        \<in> measure (\<lambda>(u, st, p). dots p + (if p = actualPuzzle st then 0 else 1))"
  proof (cases "newPuzzle p = p")
    case True
    with fresh show ?thesis by simp
  next
    case False
    with len have "dots (newPuzzle p) < dots p" by (rule dots_newPuzzle_less)
    with fresh show ?thesis by simp
  qed
qed simp

declare solve_with.simps [simp del]

text \<open>The method the class calls but never defines: looking it up gives
  \<^verbatim>\<open>undefined\<close>, and calling \<^verbatim>\<open>undefined\<close> throws.\<close>

definition isUnique_missing :: "string \<Rightarrow> js_error + bool" where
  "isUnique_missing house = Inl (TypeError ''this.isUnique is not a function'')"

definition solve :: "solver \<Rightarrow> string \<Rightarrow> solver \<times> outcome" where
  "solve = solve_with isUnique_missing"

text \<open>The method as spec section 4.3 describes it: the house holds each of 1--9 once.\<close>

definition isUnique_spec :: "string \<Rightarrow> js_error + bool" where
  "isUnique_spec house = Inr (perm19 house)"

text \<open>The same method with a budget of nested calls: \<open>None\<close> when the budget runs
  out before the method returns.\<close>

fun solve_fuel :: "nat \<Rightarrow> (string \<Rightarrow> js_error + bool) \<Rightarrow> solver \<Rightarrow> string \<Rightarrow> (solver \<times> outcome) option" where
  "solve_fuel 0 isUnique st p = None"
| "solve_fuel (Suc n) isUnique st p =
     (if validate p \<noteq> Valid then Some (st, Inr SFalse)
      else if p = actualPuzzle st then Some (st, Inr SFalse)
      else if CHR ''.'' \<in> set p then solve_fuel n isUnique (st\<lparr>actualPuzzle := p\<rparr>) (newPuzzle p)
      else Some (st, solved_check isUnique p))"

text \<open>The invariant of the instance state: \<^verbatim>\<open>actualPuzzle\<close> is the constructor's
  empty string or a validated puzzle that still had a blank when it was recorded.\<close>

definition solver_inv :: "solver \<Rightarrow> bool" where
  "solver_inv st = (actualPuzzle st = [] \<or>
     (well_formed (actualPuzzle st) \<and> CHR ''.'' \<in> set (actualPuzzle st)))"

section \<open>The characteristic cases of solve\<close>

lemma js_includes_dot [simp]: "js_includes p (JStr ''.'') = (CHR ''.'' \<in> set p)"
  by (simp add: js_includes_char)

lemma solve_with_invalid:
  "validate p \<noteq> Valid \<Longrightarrow> solve_with u st p = (st, Inr SFalse)"
  by (simp add: solve_with.simps)

lemma solve_with_repeat:
  "p = actualPuzzle st \<Longrightarrow> solve_with u st p = (st, Inr SFalse)"
  by (subst solve_with.simps) simp

lemma solve_with_step:
  "validate p = Valid \<Longrightarrow> p \<noteq> actualPuzzle st \<Longrightarrow> CHR ''.'' \<in> set p \<Longrightarrow>
   solve_with u st p = solve_with u (st\<lparr>actualPuzzle := p\<rparr>) (newPuzzle p)"
  by (simp add: solve_with.simps [of u st p])

lemma solve_with_complete:
  "validate p = Valid \<Longrightarrow> p \<noteq> actualPuzzle st \<Longrightarrow> CHR ''.'' \<notin> set p \<Longrightarrow>
   solve_with u st p = (st, solved_check u p)"
  by (simp add: solve_with.simps [of u st p])

lemmas solve_with_cases = solve_with_invalid solve_with_repeat solve_with_step solve_with_complete

lemma solved_check_missing:
  "solved_check isUnique_missing p = Inl (TypeError ''this.isUnique is not a function'')"
  by (simp add: solved_check_def solved_rows_def isUnique_missing_def upt_rec)

lemma check_unique_spec: "check_unique isUnique_spec hs = Inr (list_all perm19 hs)"
  by (induction hs) (simp_all add: isUnique_spec_def)

lemma solved_rows_houses:
  "length g = 81 \<Longrightarrow> solved_rows g = map (house_string g Row) [0..<9]"
  unfolding solved_rows_def house_string_Row
  by (rule map_cong) (simp_all add: js_substr_9_map)

lemma solved_cols_houses:
  "length g = 81 \<Longrightarrow> solved_cols g = map (house_string g Column) [0..<9]"
  unfolding solved_cols_def house_string_def house_anchor_def
  by (rule map_cong) (simp_all add: build_col_cells [where row = 0])

lemma solved_check_spec:
  assumes "length g = 81"
  shows "solved_check isUnique_spec g = (if rowcol_solved g then Inr (SString g) else Inr SFalse)"
  unfolding solved_check_def solved_rows_houses [OF assms] solved_cols_houses [OF assms]
    solved_regions_def check_unique_spec
  by (auto simp: rowcol_solved_def list_all_iff split: bool.splits)

lemma rowcol_solved_digits:
  assumes "length g = 81" "rowcol_solved g"
  shows "\<forall>c \<in> set g. c \<in> set digits19"
proof
  fix c assume "c \<in> set g"
  then obtain i where i: "i < 81" "c = g ! i" using assms(1) by (auto simp: in_set_conv_nth)
  then have "perm19 (house_string g Row (i div 9))"
    using assms(2) by (simp add: rowcol_solved_def list_all_iff)
  with i show "c \<in> set digits19" using cell_in_row_string perm19_digits by blast
qed

lemma digits19_puzzle_char: "c \<in> set digits19 \<Longrightarrow> puzzle_char c \<and> c \<noteq> CHR ''.''"
  by (simp add: digits19_def puzzle_char_def) (elim disjE; simp)

lemma rowcol_solved_well_formed:
  assumes "length g = 81" "rowcol_solved g"
  shows "well_formed g \<and> CHR ''.'' \<notin> set g"
proof -
  have "\<forall>c \<in> set g. c \<in> set digits19" using assms by (rule rowcol_solved_digits)
  then have "\<forall>c \<in> set g. puzzle_char c \<and> c \<noteq> CHR ''.''" using digits19_puzzle_char by blast
  with assms(1) show ?thesis by (auto simp: well_formed_def)
qed

lemma solved_spec_rowcol: "solved_spec g \<Longrightarrow> length g = 81 \<and> rowcol_solved g"
  by (simp add: solved_spec_def rowcol_solved_def list_all_iff)

lemma solve_with_spec_sound_aux:
  "snd (solve_with isUnique_spec st p) = Inr (SString q) \<Longrightarrow>
   extends_grid p q \<and> length q = 81 \<and> rowcol_solved q"
proof (induction isUnique_spec st p rule: solve_with.induct)
  case (1 st p)
  show ?case
  proof (cases "validate p = Valid \<and> p \<noteq> actualPuzzle st")
    case True
    then have len: "length p = 81" by (simp add: validate_Valid_iff well_formed_def)
    show ?thesis
    proof (cases "CHR ''.'' \<in> set p")
      case dot: True
      with True "1.prems" have "snd (solve_with isUnique_spec (st\<lparr>actualPuzzle := p\<rparr>) (newPuzzle p)) = Inr (SString q)"
        by (simp add: solve_with_step)
      with True dot "1.hyps" have "extends_grid (newPuzzle p) q \<and> length q = 81 \<and> rowcol_solved q"
        by simp
      with len show ?thesis using extends_newPuzzle extends_grid_trans by blast
    next
      case False
      with True "1.prems" len show ?thesis
        by (simp add: solve_with_complete solved_check_spec split: if_splits)
    qed
  next
    case False
    with "1.prems" show ?thesis
      by (cases "validate p = Valid") (simp_all add: solve_with_cases)
  qed
qed

lemma solve_with_keeps_inv:
  "solver_inv st \<Longrightarrow> solver_inv (fst (solve_with u st p))"
proof (induction u st p rule: solve_with.induct)
  case (1 u st p)
  show ?case
  proof (cases "validate p = Valid \<and> p \<noteq> actualPuzzle st \<and> CHR ''.'' \<in> set p")
    case True
    then have "solver_inv (st\<lparr>actualPuzzle := p\<rparr>)"
      by (simp add: solver_inv_def validate_Valid_iff)
    with True "1.IH" show ?thesis by (simp add: solve_with_step)
  next
    case False
    with "1.prems" show ?thesis
      by (cases "validate p = Valid"; cases "p = actualPuzzle st") (auto simp: solve_with_cases)
  qed
qed

lemma solve_records_aux:
  assumes "validate p = Valid" "p \<noteq> actualPuzzle st" "CHR ''.'' \<in> set p"
  shows "extends_grid p (actualPuzzle (fst (solve_with u st p))) \<and>
         validate (actualPuzzle (fst (solve_with u st p))) = Valid \<and>
         CHR ''.'' \<in> set (actualPuzzle (fst (solve_with u st p)))"
  using assms
proof (induction u st p rule: solve_with.induct)
  case (1 u st p)
  let ?st' = "st\<lparr>actualPuzzle := p\<rparr>"
  have len: "length p = 81" using "1.prems"(1) by (simp add: validate_Valid_iff well_formed_def)
  have run: "solve_with u st p = solve_with u ?st' (newPuzzle p)"
    using "1.prems" by (rule solve_with_step)
  show ?case
  proof (cases "validate (newPuzzle p) = Valid \<and> newPuzzle p \<noteq> p \<and> CHR ''.'' \<in> set (newPuzzle p)")
    case True
    then have "extends_grid (newPuzzle p) (actualPuzzle (fst (solve_with u ?st' (newPuzzle p)))) \<and>
        validate (actualPuzzle (fst (solve_with u ?st' (newPuzzle p)))) = Valid \<and>
        CHR ''.'' \<in> set (actualPuzzle (fst (solve_with u ?st' (newPuzzle p))))"
      using "1.prems" by (intro "1.IH") simp_all
    then show ?thesis using run extends_newPuzzle [OF len] extends_grid_trans by metis
  next
    case False
    have "validate (newPuzzle p) = Valid" using "1.prems"(1) by (rule validate_newPuzzle)
    with False have "fst (solve_with u ?st' (newPuzzle p)) = ?st'"
      by (cases "newPuzzle p = p") (simp_all add: solve_with_repeat solve_with_complete)
    with run "1.prems" show ?thesis by simp
  qed
qed

section \<open>Claims about solve\<close>

text \<open>C1: the code never returns a solved grid. Every call of \<^verbatim>\<open>solve\<close> returns
  \<^verbatim>\<open>false\<close> or throws the \<^verbatim>\<open>TypeError\<close> of the undefined \<^verbatim>\<open>this.isUnique\<close>:
  the only path to a returned string passes through the terminal check, whose first
  call of \<^verbatim>\<open>isUnique\<close> throws.\<close>

theorem solve_never_returns_solution:
  "snd (solve st p) = Inr SFalse \<or>
   snd (solve st p) = Inl (TypeError ''this.isUnique is not a function'')"
  unfolding solve_def
proof (induction isUnique_missing st p rule: solve_with.induct)
  case (1 st p)
  show ?case
    using "1" by (cases "validate p = Valid"; cases "p = actualPuzzle st"; cases "CHR ''.'' \<in> set p")
      (simp_all add: solve_with_cases solved_check_missing)
qed

text \<open>C8: every call keeps the invariant of the instance state: the recorded puzzle
  is always the empty string or a valid puzzle with a blank.\<close>

theorem solve_with_state_inv:
  "solver_inv st \<Longrightarrow> solver_inv (fst (solve_with u st p))"
  by (rule solve_with_keeps_inv)

theorem solve_with_state_inv_witness:
  "solver_inv new_solver \<and> solver_inv (fst (solve_with isUnique_missing new_solver ''1''))"
  using solve_with_state_inv [of new_solver isUnique_missing "''1''"]
  by (simp add: solver_inv_def new_solver_def)

text \<open>C15: a valid grid with no blank, other than the recorded puzzle, makes
  \<^verbatim>\<open>solve\<close> throw, and leaves the state unchanged: re-solving a solved grid does
  not return it, as spec section 8 expects, but fails in the terminal check.\<close>

theorem solve_complete_grid_throws:
  assumes "validate g = Valid" "CHR ''.'' \<notin> set g" "g \<noteq> actualPuzzle st"
  shows "solve st g = (st, Inl (TypeError ''this.isUnique is not a function''))"
  using assms by (simp add: solve_def solve_with_complete solved_check_missing)

theorem solve_complete_grid_throws_witness:
  "solve new_solver ''473891265851726394926345817568913472342687951197254638734162589685479123219538746''
   = (new_solver, Inl (TypeError ''this.isUnique is not a function''))"
proof -
  let ?g = "''473891265851726394926345817568913472342687951197254638734162589685479123219538746''"
  have "validate ?g = Valid" by code_simp
  moreover have "CHR ''.'' \<notin> set ?g" "?g \<noteq> actualPuzzle new_solver"
    by (simp_all add: new_solver_def)
  ultimately show ?thesis by (rule solve_complete_grid_throws)
qed

text \<open>C16: with the method \<^verbatim>\<open>isUnique\<close> that the spec describes, re-solving a
  solved grid returns it unchanged and leaves the state alone, from every state the
  solver can be in.\<close>

theorem solve_with_spec_idempotent:
  assumes "solver_inv st" "solved_spec g"
  shows "solve_with isUnique_spec st g = (st, Inr (SString g))"
proof -
  from assms(2) have g: "length g = 81" "rowcol_solved g" by (simp_all add: solved_spec_rowcol)
  then have wf: "well_formed g" "CHR ''.'' \<notin> set g" using rowcol_solved_well_formed by blast+
  have "g \<noteq> actualPuzzle st" using assms(1) g(1) wf(2) by (auto simp: solver_inv_def)
  with g wf show ?thesis
    by (simp add: solve_with_complete validate_Valid_iff solved_check_spec)
qed

theorem solve_with_spec_idempotent_witness:
  "solve_with isUnique_spec new_solver
     ''473891265851726394926345817568913472342687951197254638734162589685479123219538746''
   = (new_solver,
      Inr (SString ''473891265851726394926345817568913472342687951197254638734162589685479123219538746''))"
proof -
  have "solver_inv new_solver" by (simp add: solver_inv_def new_solver_def)
  moreover have "solved_spec ''473891265851726394926345817568913472342687951197254638734162589685479123219538746''"
    by code_simp
  ultimately show ?thesis by (rule solve_with_spec_idempotent)
qed

text \<open>C17: with the spec's \<^verbatim>\<open>isUnique\<close>, a grid that \<^verbatim>\<open>solve\<close> returns keeps every
  filled cell of the input, has 81 characters, and has every row and every column a
  permutation of 1--9. Nothing is said about regions: the code does not check them.\<close>

theorem solve_with_spec_sound:
  assumes "snd (solve_with isUnique_spec st p) = Inr (SString q)"
  shows "extends_grid p q \<and> length q = 81 \<and> CHR ''.'' \<notin> set q \<and> rowcol_solved q"
  using solve_with_spec_sound_aux [OF assms] rowcol_solved_well_formed by blast

theorem solve_with_spec_sound_witness:
  "extends_grid ''.73891265851726394926345817568913472342687951197254638734162589685479123219538746''
     ''473891265851726394926345817568913472342687951197254638734162589685479123219538746''"
proof -
  have "snd (solve_with isUnique_spec new_solver
          ''.73891265851726394926345817568913472342687951197254638734162589685479123219538746'')
        = Inr (SString ''473891265851726394926345817568913472342687951197254638734162589685479123219538746'')"
    by (simp add: new_solver_def) code_simp
  from solve_with_spec_sound [OF this] show ?thesis by blast
qed

text \<open>C18: \<^verbatim>\<open>solve\<close> returns within one more nested call than the puzzle has
  blanks: with a budget above the blank count the budgeted method returns, and returns
  what \<^verbatim>\<open>solve\<close> returns. On an 81-character puzzle that is at most 82 calls, 81
  propagation passes.\<close>

theorem solve_within_calls:
  "dots p < fuel \<Longrightarrow> solve_fuel fuel isUnique st p = Some (solve_with isUnique st p)"
proof (induction fuel arbitrary: st p)
  case 0
  then show ?case by simp
next
  case (Suc n)
  show ?case
  proof (cases "validate p = Valid \<and> p \<noteq> actualPuzzle st \<and> CHR ''.'' \<in> set p")
    case True
    then have len: "length p = 81" by (simp add: validate_Valid_iff well_formed_def)
    have step: "solve_fuel (Suc n) isUnique st p = solve_fuel n isUnique (st\<lparr>actualPuzzle := p\<rparr>) (newPuzzle p)"
      using True by simp
    show ?thesis
    proof (cases "newPuzzle p = p")
      case same: True
      from True have "0 < dots p" by (simp add: dots_def filter_empty_conv)
      with Suc.prems obtain m where "n = Suc m" by (cases n) auto
      with same True show ?thesis
        by (simp add: step solve_with_step solve_with_repeat)
    next
      case False
      with len have "dots (newPuzzle p) < n" using Suc.prems dots_newPuzzle_less by fastforce
      with True show ?thesis by (simp add: step Suc.IH solve_with_step)
    qed
  next
    case False
    then show ?thesis
      by (cases "validate p = Valid"; cases "p = actualPuzzle st") (auto simp: solve_with_cases)
  qed
qed

theorem solve_within_calls_witness:
  "solve_fuel 82 isUnique_missing new_solver (replicate 81 CHR ''.'') =
   Some (solve new_solver (replicate 81 CHR ''.''))"
proof -
  have "dots (replicate 81 CHR ''.'') < 82" by (simp add: dots_def)
  from solve_within_calls [OF this] show ?thesis by (simp add: solve_def)
qed

text \<open>C23: after a run that starts on a fresh valid puzzle with a blank, the recorded
  puzzle is the last intermediate grid of the run: a valid puzzle with a blank that
  extends the submitted one.\<close>

theorem solve_records_last_attempt:
  assumes "validate p = Valid" "p \<noteq> actualPuzzle st" "CHR ''.'' \<in> set p"
  shows "extends_grid p (actualPuzzle (fst (solve_with u st p))) \<and>
         validate (actualPuzzle (fst (solve_with u st p))) = Valid \<and>
         CHR ''.'' \<in> set (actualPuzzle (fst (solve_with u st p)))"
  using assms by (rule solve_records_aux)

theorem solve_records_last_attempt_witness:
  "extends_grid (replicate 81 CHR ''.'') (actualPuzzle (fst (solve new_solver (replicate 81 CHR ''.''))))"
proof -
  have "validate (replicate 81 CHR ''.'') = Valid" by (simp add: validate_Valid_iff well_formed_def puzzle_char_def)
  moreover have "replicate 81 CHR ''.'' \<noteq> actualPuzzle new_solver" "CHR ''.'' \<in> set (replicate 81 CHR ''.'')"
    by (simp_all add: new_solver_def)
  ultimately show ?thesis using solve_records_last_attempt [of "replicate 81 CHR ''.''" new_solver isUnique_missing]
    by (simp add: solve_def)
qed

text \<open>C20: with the spec's \<^verbatim>\<open>isUnique\<close>, the terminal check of \<^verbatim>\<open>solve\<close>
  accepts a complete grid exactly when every row and every column is a permutation of
  1--9: a grid passes or fails independently of its regions, since the region loop never
  runs, and the state is left unchanged either way.\<close>

theorem solve_with_spec_terminal:
  assumes "validate g = Valid" "CHR ''.'' \<notin> set g" "g \<noteq> actualPuzzle st"
  shows "solve_with isUnique_spec st g = (st, if rowcol_solved g then Inr (SString g) else Inr SFalse)"
proof -
  have "length g = 81" using assms(1) by (simp add: validate_Valid_iff well_formed_length)
  with assms show ?thesis by (simp add: solve_with_complete solved_check_spec)
qed

theorem solve_with_spec_terminal_witness:
  "solve_with isUnique_spec new_solver
     ''123456789234567891345678912456789123567891234678912345789123456891234567912345678''
   = (new_solver,
      Inr (SString ''123456789234567891345678912456789123567891234678912345789123456891234567912345678'')) \<and>
   \<not> solved_spec ''123456789234567891345678912456789123567891234678912345789123456891234567912345678''"
proof -
  let ?g = "''123456789234567891345678912456789123567891234678912345789123456891234567912345678''"
  have v: "validate ?g = Valid" by code_simp
  have "CHR ''.'' \<notin> set ?g" "?g \<noteq> actualPuzzle new_solver" by (simp_all add: new_solver_def)
  note t = solve_with_spec_terminal [OF v this]
  have "rowcol_solved ?g" "\<not> solved_spec ?g" by code_simp+
  with t show ?thesis by simp
qed

end
