(* ===== verification/Reference.thy ===== *)
theory Reference
  imports Solver
begin

text \<open>
  Two reference engines the code is compared with; neither is code of the repository.
  \<open>solve_loop\<close> is the restructuring of spec section 9: the same pass and the same
  terminal check, but the recursion stops on an explicit "no cell changed" test instead
  of comparing the input with the instance's \<open>actualPuzzle\<close>; the refinement theorem
  shows that \<open>solve_with\<close> computes it whenever the input differs from the recorded
  puzzle. \<open>solve_spec\<close> is the engine spec section 4.3 asks for: candidates computed
  against all three houses (\<open>spec_pass\<close>) and every house checked at the end
  (\<open>solved_spec\<close>).
\<close>

function solve_loop :: "(string \<Rightarrow> js_error + bool) \<Rightarrow> string \<Rightarrow> outcome" where
  "solve_loop isUnique p =
     (if validate p \<noteq> Valid then Inr SFalse
      else if CHR ''.'' \<in> set p
      then (if newPuzzle p = p then Inr SFalse else solve_loop isUnique (newPuzzle p))
      else solved_check isUnique p)"
  by pat_completeness auto
termination
  by (relation "measure (\<lambda>(u, p). dots p)")
     (auto simp: validate_Valid_iff well_formed_def intro: dots_newPuzzle_less)

declare solve_loop.simps [simp del]

definition spec_cell :: "string \<Rightarrow> nat \<Rightarrow> char" where
  "spec_cell g i =
     (if g ! i \<noteq> CHR ''.'' then g ! i
      else case candidates_spec g i of [d] \<Rightarrow> d | _ \<Rightarrow> CHR ''.'')"

definition spec_pass :: "string \<Rightarrow> string" where
  "spec_pass g = map (spec_cell g) [0..<81]"

lemma dots_spec_pass_less:
  assumes "length g = 81" "spec_pass g \<noteq> g"
  shows "dots (spec_pass g) < dots g"
  using assms unfolding spec_pass_def
  by (intro dots_less_pointwise) (auto simp: spec_cell_def split: if_splits)

function solve_spec :: "string \<Rightarrow> outcome" where
  "solve_spec p =
     (if validate p \<noteq> Valid then Inr SFalse
      else if CHR ''.'' \<in> set p
      then (if spec_pass p = p then Inr SFalse else solve_spec (spec_pass p))
      else if solved_spec p then Inr (SString p) else Inr SFalse)"
  by pat_completeness auto
termination
  by (relation "measure dots")
     (auto simp: validate_Valid_iff well_formed_def intro: dots_spec_pass_less)

declare solve_spec.simps [simp del]

section \<open>The guard-based recursion against the loop\<close>

lemma solve_with_loop:
  "p \<noteq> actualPuzzle st \<Longrightarrow> snd (solve_with u st p) = solve_loop u p"
proof (induction u st p rule: solve_with.induct)
  case (1 u st p)
  show ?case
  proof (cases "validate p = Valid \<and> CHR ''.'' \<in> set p")
    case True
    note step = solve_with_step [OF conjunct1 [OF True] "1.prems" conjunct2 [OF True]]
    show ?thesis
    proof (cases "newPuzzle p = p")
      case same: True
      then show ?thesis
        using True by (simp add: step solve_with_repeat solve_loop.simps [of u p])
    next
      case False
      then have "snd (solve_with u (st\<lparr>actualPuzzle := p\<rparr>) (newPuzzle p)) = solve_loop u (newPuzzle p)"
        using True "1.prems" by (intro "1.IH") simp_all
      with True False show ?thesis by (simp add: step solve_loop.simps [of u p])
    qed
  next
    case False
    with "1.prems" show ?thesis
      by (cases "validate p = Valid")
        (simp_all add: solve_with_invalid solve_with_complete solve_loop.simps [of u p])
  qed
qed

text \<open>C9: the solver's resubmission guard is the "no cell changed" test of spec
  section 9: on an input other than the recorded puzzle, the outcome of
  \<^verbatim>\<open>solve\<close> is that of the explicit loop, whatever \<^verbatim>\<open>isUnique\<close> is.\<close>

theorem solve_with_refines_loop:
  "p \<noteq> actualPuzzle st \<Longrightarrow> snd (solve_with isUnique st p) = solve_loop isUnique p"
  by (rule solve_with_loop)

theorem solve_with_refines_loop_witness:
  "''1'' \<noteq> actualPuzzle new_solver \<and>
   snd (solve_with isUnique_spec new_solver ''1'') = solve_loop isUnique_spec ''1''"
  using solve_with_refines_loop [of "''1''" new_solver isUnique_spec]
  by (simp add: new_solver_def)

text \<open>C19: resubmitting a puzzle right after solving it is not refused, contrary to
  spec section 8, whenever the first pass fills a cell but leaves a blank: the instance
  then records a later intermediate grid, not the puzzle, so the second submission
  gets past the guard and repeats the whole run, with the same outcome.\<close>

theorem solve_resubmission_reruns:
  assumes "validate p = Valid" "p \<noteq> actualPuzzle st" "CHR ''.'' \<in> set p"
    and "newPuzzle p \<noteq> p" "CHR ''.'' \<in> set (newPuzzle p)"
  shows "actualPuzzle (fst (solve_with u st p)) \<noteq> p \<and>
         snd (solve_with u (fst (solve_with u st p)) p) = snd (solve_with u st p)"
proof -
  let ?st' = "st\<lparr>actualPuzzle := p\<rparr>"
  have len: "length p = 81" using assms(1) by (simp add: validate_Valid_iff well_formed_length)
  have run: "solve_with u st p = solve_with u ?st' (newPuzzle p)"
    using assms(1-3) by (rule solve_with_step)
  have "extends_grid (newPuzzle p) (actualPuzzle (fst (solve_with u ?st' (newPuzzle p))))"
    using solve_records_aux [of "newPuzzle p" ?st' u] validate_newPuzzle [OF assms(1)] assms(4,5)
    by simp
  then have ext: "extends_grid (newPuzzle p) (actualPuzzle (fst (solve_with u st p)))"
    by (simp add: run)
  have fresh: "actualPuzzle (fst (solve_with u st p)) \<noteq> p"
  proof
    assume "actualPuzzle (fst (solve_with u st p)) = p"
    with ext have "extends_grid (newPuzzle p) p" by simp
    with extends_newPuzzle [OF len] have "p = newPuzzle p" by (rule extends_grid_antisym)
    with assms(4) show False by simp
  qed
  have "snd (solve_with u (fst (solve_with u st p)) p) = solve_loop u p"
    by (rule solve_with_loop [OF not_sym [OF fresh]])
  also have "\<dots> = snd (solve_with u st p)" using assms(2) by (rule solve_with_loop [symmetric])
  finally show ?thesis using fresh by simp
qed

theorem solve_resubmission_reruns_witness:
  "actualPuzzle (fst (solve new_solver ''.738.1265851726394.263.581756891347234268795119725463873416258968547912321953874.'')) \<noteq> ''.738.1265851726394.263.581756891347234268795119725463873416258968547912321953874.'' \<and>
   snd (solve (fst (solve new_solver ''.738.1265851726394.263.581756891347234268795119725463873416258968547912321953874.'')) ''.738.1265851726394.263.581756891347234268795119725463873416258968547912321953874.'') = snd (solve new_solver ''.738.1265851726394.263.581756891347234268795119725463873416258968547912321953874.'')"
proof -
  have pass: "newPuzzle ''.738.1265851726394.263.581756891347234268795119725463873416258968547912321953874.'' = ''.738.1265851726394.263.5817568913472342687951197254638734162589685479123219538746''" by code_simp
  have v: "validate ''.738.1265851726394.263.581756891347234268795119725463873416258968547912321953874.'' = Valid" by code_simp
  have "''.738.1265851726394.263.581756891347234268795119725463873416258968547912321953874.'' \<noteq> actualPuzzle new_solver" "CHR ''.'' \<in> set ''.738.1265851726394.263.581756891347234268795119725463873416258968547912321953874.''"
    "newPuzzle ''.738.1265851726394.263.581756891347234268795119725463873416258968547912321953874.'' \<noteq> ''.738.1265851726394.263.581756891347234268795119725463873416258968547912321953874.''" "CHR ''.'' \<in> set (newPuzzle ''.738.1265851726394.263.581756891347234268795119725463873416258968547912321953874.'')"
    by (simp_all add: new_solver_def pass)
  from solve_resubmission_reruns [OF v this, of isUnique_missing] show ?thesis
    by (simp add: solve_def)
qed

end
