(* ===== verification/Route.thy ===== *)
theory Route
  imports Solver
begin

text \<open>
  The HTTP adapter that calls the engine: \<^verbatim>\<open>POST /api/check\<close> and
  \<^verbatim>\<open>POST /api/solve\<close>. The routes are not part of \<^verbatim>\<open>src/\<close>; they are modelled from
  spec sections 4.1 (validation is the gate of every operation and its error is passed
  on untouched), 4.2 (the aggregate check) and 6 (a coordinate is a row letter A--I and
  a column digit 1--9, translated to zero-based row and column; the value is a digit
  1--9), with the messages the functional tests of
  \<^verbatim>\<open>src/tests/2_functional-tests.js\<close> expect. A request body field is \<open>None\<close> when
  it is absent. The solve route threads the engine instance, as the server shares one
  \<^verbatim>\<open>SudokuSolver\<close> between requests.
\<close>

text \<open>The coordinate notation of spec section 6: \<^verbatim>\<open>"A1"\<close> is row 0, column 0.\<close>

fun parse_coordinate :: "string \<Rightarrow> (nat \<times> nat) option" where
  "parse_coordinate [l, d] =
     (let r = (of_char l :: nat); c = (of_char d :: nat) in
      if 65 \<le> r \<and> r < 74 \<and> 49 \<le> c \<and> c < 58 then Some (r - 65, c - 49) else None)"
| "parse_coordinate _ = None"

definition show_coordinate :: "nat \<times> nat \<Rightarrow> string" where
  "show_coordinate rc = (case rc of (r, c) \<Rightarrow> [char_of (65 + r), char_of (49 + c)])"

text \<open>A placement value: a number 1--9, passed to the checkers as its digit string.\<close>

definition parse_value :: "nat \<Rightarrow> char option" where
  "parse_value v = (if 1 \<le> v \<and> v \<le> 9 then Some (''0123456789'' ! v) else None)"

datatype api_response =
    ApiError string
  | ApiCheck bool "house list"
  | ApiSolution string
  | ApiException js_error

text \<open>\<^verbatim>\<open>POST /api/check\<close>: all three fields present, then the puzzle's format, the
  coordinate and the value, then the aggregate check, whose conflicts give the
  response's \<^verbatim>\<open>valid\<close> and \<^verbatim>\<open>conflict\<close> fields.\<close>

definition check_route :: "string option \<Rightarrow> string option \<Rightarrow> nat option \<Rightarrow> api_response" where
  "check_route puzzle coordinate value =
     (case (puzzle, coordinate, value) of
        (Some p, Some co, Some v) \<Rightarrow>
          (case validate p of
             ValidationError e \<Rightarrow> ApiError (error_message e)
           | Valid \<Rightarrow>
               (case parse_coordinate co of
                  None \<Rightarrow> ApiError ''Invalid coordinate''
                | Some (r, c) \<Rightarrow>
                    (case parse_value v of
                       None \<Rightarrow> ApiError ''Invalid value''
                     | Some d \<Rightarrow>
                         (let conflicts = checkPlacement p r c (JStr [d])
                          in ApiCheck (conflicts = []) conflicts))))
      | _ \<Rightarrow> ApiError ''Required field(s) missing'')"

text \<open>The engine's result as a response: a string is the solution, \<^verbatim>\<open>false\<close> the
  unsolvable message, a thrown error escapes the handler.\<close>

definition solve_response :: "outcome \<Rightarrow> api_response" where
  "solve_response r = (case r of
      Inl e \<Rightarrow> ApiException e
    | Inr SFalse \<Rightarrow> ApiError ''Puzzle cannot be solved''
    | Inr (SString g) \<Rightarrow> ApiSolution g)"

text \<open>\<^verbatim>\<open>POST /api/solve\<close> on the shared instance, for a method \<^verbatim>\<open>isUnique\<close>: the
  puzzle field present, its format, then \<^verbatim>\<open>solve\<close>.\<close>

definition solve_route_with ::
  "(string \<Rightarrow> js_error + bool) \<Rightarrow> solver \<Rightarrow> string option \<Rightarrow> solver \<times> api_response" where
  "solve_route_with isUnique st puzzle =
     (case puzzle of
        None \<Rightarrow> (st, ApiError ''Required field missing'')
      | Some p \<Rightarrow>
          (case validate p of
             ValidationError e \<Rightarrow> (st, ApiError (error_message e))
           | Valid \<Rightarrow> (case solve_with isUnique st p of (st', r) \<Rightarrow> (st', solve_response r))))"

definition solve_route :: "solver \<Rightarrow> string option \<Rightarrow> solver \<times> api_response" where
  "solve_route = solve_route_with isUnique_missing"

section \<open>Coordinates\<close>

lemma of_char_coordinate [simp]:
  "r < 9 \<Longrightarrow> of_char (char_of (65 + r)) = (65 + r :: nat)"
  "c < 9 \<Longrightarrow> of_char (char_of (49 + c)) = (49 + c :: nat)"
  by simp_all

lemma parse_coordinate_Some:
  "parse_coordinate s = Some (r, c) \<longleftrightarrow>
   (\<exists>l d. s = [l, d] \<and> of_char l = 65 + r \<and> of_char d = 49 + c \<and> r < 9 \<and> c < 9)"
  by (cases s rule: parse_coordinate.cases) (auto simp: Let_def)

lemma parse_coordinate_bound: "parse_coordinate s = Some (r, c) \<Longrightarrow> r < 9 \<and> c < 9"
  by (auto simp: parse_coordinate_Some)

lemma char_of_eq: "of_char x = (n :: nat) \<Longrightarrow> char_of n = x"
  by (metis char_of_char)

lemma parse_show_coordinate:
  "r < 9 \<Longrightarrow> c < 9 \<Longrightarrow> parse_coordinate (show_coordinate (r, c)) = Some (r, c)"
  by (simp add: show_coordinate_def)

lemma show_parse_coordinate:
  "parse_coordinate s = Some (r, c) \<Longrightarrow> r < 9 \<and> c < 9 \<and> show_coordinate (r, c) = s"
  by (auto simp: parse_coordinate_Some show_coordinate_def char_of_eq)

lemma parse_value_digit: "1 \<le> v \<Longrightarrow> v \<le> 9 \<Longrightarrow> JStr [the (parse_value v)] = JStr (nat_str v)"
  by (simp add: parse_value_def nat_str_digit)

lemma validate_error_cases:
  "validate p \<noteq> Valid \<Longrightarrow> \<exists>e. validate p = ValidationError e"
  by (cases "validate p") simp_all

end
