(* ===== verification/Session.thy ===== *)
theory Session
  imports Route
begin

text \<open>
  The server as a sequence of requests handled one after the other by one shared
  engine instance (spec sections 3 and 5): a check request is answered from its fields
  alone, a solve request runs \<^verbatim>\<open>solve\<close> on the instance and leaves it updated for
  the next request. \<open>server_step_with\<close> handles one request, \<open>run_with\<close> a list of
  them, and \<open>reachable\<close> is the set of instance states some sequence of requests
  produces. \<open>sessions_step\<close> is the redesign of spec section 9: one instance per
  session, the request naming its session. Like the routes, the server is not part of
  \<^verbatim>\<open>src/\<close>; its use of the engine is modelled from the spec.
\<close>

datatype request =
    CheckRequest "string option" "string option" "nat option"
  | SolveRequest "string option"

definition server_step_with ::
  "(string \<Rightarrow> js_error + bool) \<Rightarrow> solver \<Rightarrow> request \<Rightarrow> solver \<times> api_response" where
  "server_step_with isUnique st req = (case req of
      CheckRequest p co v \<Rightarrow> (st, check_route p co v)
    | SolveRequest p \<Rightarrow> solve_route_with isUnique st p)"

definition server_step :: "solver \<Rightarrow> request \<Rightarrow> solver \<times> api_response" where
  "server_step = server_step_with isUnique_missing"

fun run_with ::
  "(string \<Rightarrow> js_error + bool) \<Rightarrow> solver \<Rightarrow> request list \<Rightarrow> solver \<times> api_response list" where
  "run_with isUnique st [] = (st, [])"
| "run_with isUnique st (req # reqs) =
     (case server_step_with isUnique st req of
        (st', a) \<Rightarrow> (case run_with isUnique st' reqs of (st'', as) \<Rightarrow> (st'', a # as)))"

inductive reachable :: "(string \<Rightarrow> js_error + bool) \<Rightarrow> solver \<Rightarrow> bool" for isUnique where
  reachable_init: "reachable isUnique new_solver"
| reachable_step: "reachable isUnique st \<Longrightarrow> reachable isUnique (fst (server_step_with isUnique st req))"

inductive_cases reachable_elim: "reachable isUnique st"

definition is_solve_request :: "request \<Rightarrow> bool" where
  "is_solve_request req = (case req of SolveRequest p \<Rightarrow> True | CheckRequest p co v \<Rightarrow> False)"

text \<open>One instance per session: the request is handled by its session's instance,
  and only that instance is updated.\<close>

definition sessions_step ::
  "(string \<Rightarrow> js_error + bool) \<Rightarrow> ('s \<Rightarrow> solver) \<Rightarrow> 's \<times> request \<Rightarrow> ('s \<Rightarrow> solver) \<times> api_response" where
  "sessions_step isUnique m sr = (case sr of (s, req) \<Rightarrow>
     (case server_step_with isUnique (m s) req of (st', a) \<Rightarrow> (m(s := st'), a)))"

fun run_sessions ::
  "(string \<Rightarrow> js_error + bool) \<Rightarrow> ('s \<Rightarrow> solver) \<Rightarrow> ('s \<times> request) list \<Rightarrow> ('s \<Rightarrow> solver) \<times> api_response list" where
  "run_sessions isUnique m [] = (m, [])"
| "run_sessions isUnique m (sr # srs) =
     (case sessions_step isUnique m sr of
        (m', a) \<Rightarrow> (case run_sessions isUnique m' srs of (m'', as) \<Rightarrow> (m'', a # as)))"

section \<open>The server loop\<close>

lemma server_step_check [simp]:
  "server_step_with isUnique st (CheckRequest p co v) = (st, check_route p co v)"
  by (simp add: server_step_with_def)

lemma server_step_solve [simp]:
  "server_step_with isUnique st (SolveRequest p) = solve_route_with isUnique st p"
  by (simp add: server_step_with_def)

lemma solve_route_state:
  "fst (solve_route_with isUnique st p) = st \<or>
   (\<exists>q. validate q = Valid \<and> fst (solve_route_with isUnique st p) = fst (solve_with isUnique st q))"
  by (auto simp: solve_route_with_def split: option.splits validation.splits prod.splits)

lemma solve_route_valid:
  "validate q = Valid \<Longrightarrow>
   solve_route_with isUnique st (Some q) =
     (fst (solve_with isUnique st q), solve_response (snd (solve_with isUnique st q)))"
  by (simp add: solve_route_with_def split: prod.splits)

lemma server_step_keeps_inv:
  assumes "solver_inv st"
  shows "solver_inv (fst (server_step_with isUnique st req))"
proof (cases req)
  case (SolveRequest p)
  then show ?thesis
    using solve_route_state [of isUnique st p] solve_with_keeps_inv [OF assms, of isUnique] assms
    by auto
qed (simp add: assms)

lemma run_with_split:
  "run_with isUnique st (req # reqs) =
   (fst (run_with isUnique (fst (server_step_with isUnique st req)) reqs),
    snd (server_step_with isUnique st req) # snd (run_with isUnique (fst (server_step_with isUnique st req)) reqs))"
  by (simp split: prod.splits)

lemma run_sessions_split:
  "run_sessions isUnique m (sr # srs) =
   (fst (run_sessions isUnique (fst (sessions_step isUnique m sr)) srs),
    snd (sessions_step isUnique m sr) # snd (run_sessions isUnique (fst (sessions_step isUnique m sr)) srs))"
  by (simp split: prod.splits)

lemma sessions_step_simp [simp]:
  "sessions_step isUnique m (s, req) =
   (m(s := fst (server_step_with isUnique (m s) req)), snd (server_step_with isUnique (m s) req))"
  by (simp add: sessions_step_def split: prod.splits)

declare run_with.simps(2) [simp del] run_sessions.simps(2) [simp del]

lemma is_solve_request_simps [simp]:
  "is_solve_request (SolveRequest p)"
  "\<not> is_solve_request (CheckRequest p co v)"
  by (simp_all add: is_solve_request_def)

end
